theory Spec2Isabelle
  imports Complex_Main "HOL-Library.Word"
begin

section \<open>C strings and the libc functions used by ipc.c\<close>

text \<open>
  A byte buffer is a \<^typ>\<open>string\<close>. Read as a C string it ends at its first NUL byte:
  \<open>c_str\<close> is that prefix, \<open>strlen\<close> its length. \<open>strncpy_buf\<close> is the idiom
  \<^verbatim>\<open>buf = scalloc(n + 1); strncpy(buf, src, n)\<close> of the handlers, read back as a C string.
\<close>

definition c_str :: "string \<Rightarrow> string" where
  "c_str s = takeWhile (\<lambda>c. c \<noteq> CHR 0x00) s"

definition strlen :: "string \<Rightarrow> nat" where
  "strlen s = length (c_str s)"

definition strncpy_buf :: "string \<Rightarrow> nat \<Rightarrow> string" where
  "strncpy_buf src n = c_str (take n src)"

text \<open>
  \<open>tolower\<close> on a byte, as in the C locale and in a UTF-8 locale: the letters A to Z (65 to
  90) get bit 5 (value 32) set, every other byte is returned as it is.
\<close>

fun tolower :: "char \<Rightarrow> char" where
  "tolower (Char b0 b1 b2 b3 b4 b5 b6 b7) =
     (let n = (of_char (Char b0 b1 b2 b3 b4 b5 b6 b7) :: nat)
      in if 65 \<le> n \<and> n \<le> 90 then Char b0 b1 b2 b3 b4 True b6 b7
         else Char b0 b1 b2 b3 b4 b5 b6 b7)"

text \<open>
  Byte-wise comparison of two C strings, the end of a string comparing as the byte 0; the
  result is the difference of the first two bytes that differ.
\<close>

fun c_compare :: "nat list \<Rightarrow> nat list \<Rightarrow> int" where
  "c_compare [] [] = 0"
| "c_compare [] (b # bs) = 0 - int b"
| "c_compare (a # as) [] = int a"
| "c_compare (a # as) (b # bs) = (if a = b then c_compare as bs else int a - int b)"

definition strcmp :: "string \<Rightarrow> string \<Rightarrow> int" where
  "strcmp s1 s2 = c_compare (map of_char (c_str s1)) (map of_char (c_str s2))"

definition strcasecmp :: "string \<Rightarrow> string \<Rightarrow> int" where
  "strcasecmp s1 s2 =
     c_compare (map (\<lambda>c. of_char (tolower c)) (c_str s1)) (map (\<lambda>c. of_char (tolower c)) (c_str s2))"

section \<open>The client registry and the trace of external calls\<close>

text \<open>
  \<open>ipc_client\<close> is the struct of include/ipc.h as ipc.c uses it: the connection's file
  descriptor and the array \<open>events\<close> of \<open>num_events\<close> owned strings, here the list
  \<open>events\<close> (\<open>num_events\<close> is its length). \<open>all_clients\<close> is the TAILQ of the clients,
  head first.
\<close>

record ipc_client =
  fd :: int
  events :: "string list"

text \<open>
  The message type handed to \<open>ipc_send_message\<close> is either one of the reply-type macros of
  include/i3/ipc.h, kept symbolic, or the \<open>uint32_t\<close> the caller of \<open>ipc_send_event\<close> passes.
\<close>

datatype wire_type =
    I3_IPC_REPLY_TYPE_COMMAND
  | I3_IPC_REPLY_TYPE_WORKSPACES
  | I3_IPC_REPLY_TYPE_SUBSCRIBE
  | I3_IPC_REPLY_TYPE_OUTPUTS
  | I3_IPC_REPLY_TYPE_TREE
  | I3_IPC_REPLY_TYPE_MARKS
  | I3_IPC_REPLY_TYPE_BAR_CONFIG
  | I3_IPC_REPLY_TYPE_VERSION
  | Message_type "32 word"

datatype log_level = LOG | DLOG | ELOG

text \<open>
  Every call that acts on a connection, on an object owned by the registry or on the log
  is recorded, in order, with the arguments the claims are about: a log line by its format
  string (without the trailing newline), a freed subscription string by its bytes, a freed
  client struct and a watcher by the descriptor they belong to. Allocation and release of
  handler-local temporaries (parser and generator handles, copies of the message) are not
  recorded.
\<close>

datatype io_event =
    Send_message int wire_type string
  | Shutdown_fd int
  | Close_fd int
  | Free_string string
  | Free_client int
  | Fcntl_cloexec int
  | Set_nonblock int
  | Ev_io_start int
  | Ev_io_stop int
  | Free_watcher int
  | Perror string
  | Log log_level string

record ipc_state =
  all_clients :: "ipc_client list"
  trace :: "io_event list"

datatype error = Assertion_failed | Err_exit

datatype errno_t = EAGAIN | EINTR | Errno_other nat

text \<open>
  Modelled from the spec: \<open>ipc_send_message\<close> (libi3, not under src/) frames
  \<open>(type, payload)\<close> with the first \<open>len\<close> bytes of the buffer and writes the frame to the
  connection; the model records the call. Its return value is ignored by every caller here.
\<close>

definition ipc_send_message :: "int \<Rightarrow> nat \<Rightarrow> wire_type \<Rightarrow> string \<Rightarrow> ipc_state \<Rightarrow> ipc_state" where
  "ipc_send_message fd' len message_type payload s =
     s\<lparr>trace := trace s @ [Send_message fd' message_type (take len payload)]\<rparr>"

definition log_event :: "log_level \<Rightarrow> string \<Rightarrow> ipc_state \<Rightarrow> ipc_state" where
  "log_event lvl fmt s = s\<lparr>trace := trace s @ [Log lvl fmt]\<rparr>"

text \<open>The frames written so far: descriptor, type and payload of each \<open>ipc_send_message\<close> call.\<close>

fun sent :: "io_event list \<Rightarrow> (int \<times> wire_type \<times> string) list" where
  "sent [] = []"
| "sent (Send_message fd' t p # tr) = (fd', t, p) # sent tr"
| "sent (_ # tr) = sent tr"

text \<open>The subscription strings released so far.\<close>

fun freed_strings :: "io_event list \<Rightarrow> string list" where
  "freed_strings [] = []"
| "freed_strings (Free_string e # tr) = e # freed_strings tr"
| "freed_strings (_ # tr) = freed_strings tr"

section \<open>ipc\_send\_event\<close>

text \<open>The inner \<open>for\<close> loop: \<open>continue\<close> on a mismatch, \<open>interested = true; break\<close> on a match.\<close>

fun interested :: "string list \<Rightarrow> string \<Rightarrow> bool" where
  "interested [] event = False"
| "interested (e # es) event = (if strcasecmp e event \<noteq> 0 then interested es event else True)"

fun send_event_loop :: "ipc_client list \<Rightarrow> string \<Rightarrow> 32 word \<Rightarrow> string \<Rightarrow> ipc_state \<Rightarrow> ipc_state" where
  "send_event_loop [] event message_type payload s = s"
| "send_event_loop (current # rest) event message_type payload s =
     (if \<not> interested (events current) event
      then send_event_loop rest event message_type payload s
      else send_event_loop rest event message_type payload
             (ipc_send_message (fd current) (strlen payload) (Message_type message_type) payload s))"

definition ipc_send_event :: "string \<Rightarrow> 32 word \<Rightarrow> string \<Rightarrow> ipc_state \<Rightarrow> ipc_state" where
  "ipc_send_event event message_type payload s =
     send_event_loop (all_clients s) event message_type payload s"

section \<open>ipc\_shutdown\<close>

function ipc_shutdown :: "ipc_state \<Rightarrow> ipc_state" where
  "ipc_shutdown s =
     (case all_clients s of
        [] \<Rightarrow> s
      | current # rest \<Rightarrow>
          ipc_shutdown
            \<lparr>all_clients = rest,
             trace = trace s @ [Shutdown_fd (fd current), Close_fd (fd current), Free_client (fd current)]\<rparr>)"
  by pat_completeness auto
termination
  by (relation "measure (\<lambda>s. length (all_clients s))") auto

section \<open>ipc\_new\_client\<close>

text \<open>
  The outcomes of the system calls are inputs: \<open>client\<close> is what \<open>accept\<close> returned,
  \<open>errno\<close> the error it left, \<open>setfl\<close> what the \<open>fcntl(F_SETFL)\<close> of \<open>set_nonblock\<close>
  returned (\<open>err\<close> ends the process when it is negative). \<open>scalloc\<close> zeroes the new struct:
  no events.
\<close>

definition ipc_new_client :: "int \<Rightarrow> errno_t \<Rightarrow> int \<Rightarrow> ipc_state \<Rightarrow> error + ipc_state" where
  "ipc_new_client client errno setfl s =
     (if client < 0 then
        (if errno = EINTR then Inr s
         else Inr (s\<lparr>trace := trace s @ [Perror ''accept()'']\<rparr>))
      else if setfl < 0 then Inl Err_exit
      else
        Inr \<lparr>all_clients = all_clients s @ [\<lparr>fd = client, events = []\<rparr>],
             trace = trace s @
               [Fcntl_cloexec client, Set_nonblock client, Ev_io_start client,
                Log DLOG ''IPC: new client connected on fd %d'']\<rparr>)"

section \<open>The JSON library (yajl)\<close>

text \<open>
  yajl is an external library. Its generator is driven through the macros \<open>y(...)\<close> and
  \<open>ystr(...)\<close>: the model keeps the calls made on a generator, in order, as tokens, and
  takes the text \<open>yajl_gen_get_buf\<close> returns for them as a parameter. Its parser reports
  what it reads through callbacks: the model takes as a parameter the events the parser
  meets in a buffer, in order, and the status \<open>yajl_parse\<close> returns.
\<close>

datatype gen_tok =
    Y_map_open | Y_map_close | Y_array_open | Y_array_close
  | Y_string string | Y_integer int | Y_double real | Y_bool bool | Y_null

definition ystr :: "string \<Rightarrow> gen_tok" where
  "ystr str = Y_string (take (strlen str) str)"

datatype yajl_event =
    Yajl_null | Yajl_boolean bool | Yajl_number string | Yajl_string string
  | Yajl_start_map | Yajl_map_key string | Yajl_end_map
  | Yajl_start_array | Yajl_end_array

datatype yajl_status =
    yajl_status_ok | yajl_status_client_canceled | yajl_status_insufficient_data | yajl_status_error

text \<open>
  What a piece of serialization code does: the log lines it writes, in order, and either
  the tokens it generates or the assertion that ended the process. \<open>emit\<close> is a run of
  generator calls, \<open>dlog\<close> a call of \<open>DLOG\<close>.
\<close>

type_synonym gen_result = "io_event list \<times> (error + gen_tok list)"

definition emit :: "gen_tok list \<Rightarrow> gen_result" where
  "emit toks = ([], Inr toks)"

definition dlog :: "string \<Rightarrow> gen_result" where
  "dlog fmt = ([Log DLOG fmt], Inr [])"

text \<open>
  Pieces in sequence: log lines and tokens add up; a failed assertion ends the process, so
  the pieces after it do not run.
\<close>

fun collect :: "gen_result list \<Rightarrow> gen_result" where
  "collect [] = ([], Inr [])"
| "collect ((logs, Inl e) # rs) = (logs, Inl e)"
| "collect ((logs, Inr ts) # rs) =
     (case collect rs of
        (logs', Inl e) \<Rightarrow> (logs @ logs', Inl e)
      | (logs', Inr us) \<Rightarrow> (logs @ logs', Inr (ts @ us)))"

text \<open>\<open>assert(b)\<close>: nothing when \<open>NDEBUG\<close> is defined, otherwise the process aborts unless \<open>b\<close>.\<close>

definition c_assert :: "bool \<Rightarrow> bool \<Rightarrow> gen_result" where
  "c_assert ndebug b = ([], if ndebug \<or> b then Inr [] else Inl Assertion_failed)"

section \<open>The domain model the handlers read\<close>

text \<open>
  The structs and enumerations of include/data.h and include/config.h, with the fields
  ipc.c reads. Fields carry the prefix of their struct. An enumeration is a datatype of its
  enumerators; \<open>con_addr\<close> is the address of a container, which ipc.c prints and compares.
\<close>

record Rect =
  rect_x :: int
  rect_y :: int
  rect_width :: int
  rect_height :: int

datatype con_type_t = CT_ROOT | CT_OUTPUT | CT_CON | CT_FLOATING_CON | CT_WORKSPACE | CT_DOCKAREA
datatype scratchpad_state_t = SCRATCHPAD_NONE | SCRATCHPAD_FRESH | SCRATCHPAD_CHANGED
datatype layout_t = L_DEFAULT | L_STACKED | L_TABBED | L_DOCKAREA | L_OUTPUT | L_SPLITV | L_SPLITH
datatype border_style_t = BS_NORMAL | BS_NONE | BS_PIXEL
datatype floating_t = FLOATING_AUTO_OFF | FLOATING_USER_OFF | FLOATING_AUTO_ON | FLOATING_USER_ON
datatype orientation_t = NO_ORIENTATION | HORIZ | VERT
datatype fullscreen_mode_t = CF_NONE | CF_OUTPUT | CF_GLOBAL

record Window =
  window_id :: int
  window_name :: "string option"

record Match =
  match_dock :: int
  match_insert_where :: int

record con_fields =
  con_addr :: int
  con_type :: con_type_t
  con_scratchpad_state :: scratchpad_state_t
  con_percent :: real
  con_urgent :: bool
  con_mark :: "string option"
  con_layout :: layout_t
  con_workspace_layout :: layout_t
  con_border_style :: border_style_t
  con_current_border_width :: int
  con_rect :: Rect
  con_window_rect :: Rect
  con_geometry :: Rect
  con_name :: string
  con_window :: "Window option"
  con_num :: int
  con_focus_head :: "int list"
  con_fullscreen_mode :: int
  con_floating :: floating_t
  con_swallow_head :: "Match list"
  con_depth :: int

datatype Con = Con (con_of: con_fields) (nodes_head: "Con list") (floating_head: "Con list")

record Output =
  output_name :: string
  output_active :: bool
  output_primary :: bool
  output_rect :: Rect
  output_con :: "Con option"

datatype bar_mode_t = M_DOCK | M_HIDE | M_INVISIBLE
datatype bar_hidden_state_t = S_HIDE | S_SHOW
datatype bar_modifier_t = M_NONE | M_CONTROL | M_SHIFT | M_MOD1 | M_MOD2 | M_MOD3 | M_MOD4 | M_MOD5
datatype bar_position_t = P_TOP | P_BOTTOM

record bar_colors =
  background :: "string option"
  statusline :: "string option"
  separator :: "string option"
  focused_workspace_border :: "string option"
  focused_workspace_bg :: "string option"
  focused_workspace_text :: "string option"
  active_workspace_border :: "string option"
  active_workspace_bg :: "string option"
  active_workspace_text :: "string option"
  inactive_workspace_border :: "string option"
  inactive_workspace_bg :: "string option"
  inactive_workspace_text :: "string option"
  urgent_workspace_border :: "string option"
  urgent_workspace_bg :: "string option"
  urgent_workspace_text :: "string option"

record Barconfig =
  config_id :: string
  config_outputs :: "string list"
  config_tray_output :: "string option"
  config_socket_path :: "string option"
  config_mode :: bar_mode_t
  config_hidden_state :: bar_hidden_state_t
  config_modifier :: bar_modifier_t
  config_position :: bar_position_t
  config_status_command :: "string option"
  config_font :: "string option"
  config_hide_workspace_buttons :: bool
  config_hide_binding_mode_indicator :: bool
  config_verbose :: bool
  config_colors :: bar_colors

record CommandResult =
  json_gen :: "gen_tok list"
  needs_tree_render :: bool

text \<open>
  Everything ipc.c calls or reads that lives outside it: the build flag \<open>NDEBUG\<close>, the
  yajl parser and generator, the command executor and the renderer (which may act on the
  IPC state), the globals of the domain model and the functions of con.c, workspace.c and
  output.c, the numeric value of a \<open>con_type_t\<close> enumerator and the version macros.
\<close>

record extern =
  NDEBUG :: bool
  yajl_parse :: "string \<Rightarrow> yajl_event list \<times> yajl_status"
  yajl_gen_get_buf :: "gen_tok list \<Rightarrow> string"
  parse_command :: "string \<Rightarrow> ipc_state \<Rightarrow> CommandResult \<times> ipc_state"
  tree_render :: "ipc_state \<Rightarrow> ipc_state"
  croot :: Con
  focused :: Con
  all_cons :: "Con list"
  outputs :: "Output list"
  barconfigs :: "Barconfig list"
  con_is_split :: "Con \<Rightarrow> bool"
  con_orientation :: "Con \<Rightarrow> orientation_t"
  con_get_workspace :: "Con \<Rightarrow> Con option"
  con_is_internal :: "Con \<Rightarrow> bool"
  output_get_content :: "Con \<Rightarrow> Con"
  workspace_is_visible :: "Con \<Rightarrow> bool"
  con_get_fullscreen_con :: "Con \<Rightarrow> fullscreen_mode_t \<Rightarrow> Con option"
  con_type_value :: "con_type_t \<Rightarrow> int"
  MAJOR_VERSION :: int
  MINOR_VERSION :: int
  PATCH_VERSION :: int
  I3_VERSION :: string

text \<open>The end of every handler that generates JSON: \<open>y(get_buf, ...)\<close>, then the reply.\<close>

definition send_gen_buf :: "extern \<Rightarrow> int \<Rightarrow> wire_type \<Rightarrow> gen_tok list \<Rightarrow> ipc_state \<Rightarrow> ipc_state" where
  "send_gen_buf env fd' reply_type gen s =
     (let payload = yajl_gen_get_buf env gen
      in ipc_send_message fd' (length payload) reply_type payload s)"

section \<open>The handlers\<close>

text \<open>
  A handler \<open>IPC_HANDLER(name)\<close> receives the descriptor, the message buffer (its length is
  \<open>message_size\<close>) and the message type; the parameter \<open>size\<close>, which is 0 in the only
  call and read by no handler, is left out. An assertion that fails ends the process: the
  handler then returns an error instead of a state. The log lines written while the
  reply is generated precede the reply in the trace.
\<close>

type_synonym handler_t = "extern \<Rightarrow> int \<Rightarrow> string \<Rightarrow> 32 word \<Rightarrow> ipc_state \<Rightarrow> error + ipc_state"

subsection \<open>COMMAND\<close>

definition handle_command :: handler_t where
  "handle_command env fd' message message_type s =
     (let command = strncpy_buf message (length message);
          s1 = log_event LOG ''IPC: received: *%s*'' s;
          (command_output, s2) = parse_command env command s1;
          s3 = (if needs_tree_render command_output then tree_render env s2 else s2)
      in Inr (send_gen_buf env fd' I3_IPC_REPLY_TYPE_COMMAND (json_gen command_output) s3))"

subsection \<open>GET\_TREE\<close>

definition dump_rect :: "string \<Rightarrow> Rect \<Rightarrow> gen_tok list" where
  "dump_rect name r =
     [ystr name, Y_map_open,
      ystr ''x'', Y_integer (rect_x r),
      ystr ''y'', Y_integer (rect_y r),
      ystr ''width'', Y_integer (rect_width r),
      ystr ''height'', Y_integer (rect_height r),
      Y_map_close]"

text \<open>The \<open>switch (con->layout)\<close> after \<open>ystr("layout")\<close>.\<close>

fun dump_layout :: "bool \<Rightarrow> layout_t \<Rightarrow> gen_result" where
  "dump_layout ndebug L_DEFAULT =
     collect [dlog ''About to dump layout=default, this is a bug in the code.'',
              c_assert ndebug False]"
| "dump_layout ndebug L_SPLITV = emit [ystr ''splitv'']"
| "dump_layout ndebug L_SPLITH = emit [ystr ''splith'']"
| "dump_layout ndebug L_STACKED = emit [ystr ''stacked'']"
| "dump_layout ndebug L_TABBED = emit [ystr ''tabbed'']"
| "dump_layout ndebug L_DOCKAREA = emit [ystr ''dockarea'']"
| "dump_layout ndebug L_OUTPUT = emit [ystr ''output'']"

text \<open>The \<open>switch (con->workspace_layout)\<close>.\<close>

fun dump_workspace_layout :: "bool \<Rightarrow> layout_t \<Rightarrow> gen_result" where
  "dump_workspace_layout ndebug L_DEFAULT = emit [ystr ''default'']"
| "dump_workspace_layout ndebug L_STACKED = emit [ystr ''stacked'']"
| "dump_workspace_layout ndebug L_TABBED = emit [ystr ''tabbed'']"
| "dump_workspace_layout ndebug _ =
     collect
       [dlog ''About to dump workspace_layout=%d (none of default/stacked/tabbed), this is a bug.'',
        c_assert ndebug False]"

fun dump_swallow :: "Match \<Rightarrow> gen_tok list" where
  "dump_swallow match =
     (if match_dock match \<noteq> - 1
      then [Y_map_open,
            ystr ''dock'', Y_integer (match_dock match),
            ystr ''insert_where'', Y_integer (match_insert_where match),
            Y_map_close]
      else [])"

fun dump_node :: "extern \<Rightarrow> Con \<Rightarrow> bool \<Rightarrow> gen_result" where
  "dump_node env (Con con nodes floating) inplace_restart =
     collect
       [emit [Y_map_open,
             ystr ''id'', Y_integer (con_addr con),
             ystr ''type'', Y_integer (con_type_value env (con_type con)),
             ystr ''orientation'',
             (if \<not> con_is_split env (Con con nodes floating) then ystr ''none''
              else if con_orientation env (Con con nodes floating) = HORIZ then ystr ''horizontal''
              else ystr ''vertical''),
             ystr ''scratchpad_state'',
             (case con_scratchpad_state con of
                SCRATCHPAD_NONE \<Rightarrow> ystr ''none''
              | SCRATCHPAD_FRESH \<Rightarrow> ystr ''fresh''
              | SCRATCHPAD_CHANGED \<Rightarrow> ystr ''changed''),
             ystr ''percent'',
             (if con_percent con = 0 then Y_null else Y_double (con_percent con)),
             ystr ''urgent'', Y_bool (con_urgent con)],
        emit (case con_mark con of None \<Rightarrow> [] | Some mark \<Rightarrow> [ystr ''mark'', ystr mark]),
        emit [ystr ''focused'', Y_bool (con_addr con = con_addr (con_of (focused env)))],
        emit [ystr ''layout''],
        dump_layout (NDEBUG env) (con_layout con),
        emit [ystr ''workspace_layout''],
        dump_workspace_layout (NDEBUG env) (con_workspace_layout con),
        emit [ystr ''last_split_layout'',
             (case con_layout con of L_SPLITV \<Rightarrow> ystr ''splitv'' | _ \<Rightarrow> ystr ''splith''),
             ystr ''border'',
             (case con_border_style con of
                BS_NORMAL \<Rightarrow> ystr ''normal''
              | BS_NONE \<Rightarrow> ystr ''none''
              | BS_PIXEL \<Rightarrow> ystr ''pixel''),
             ystr ''current_border_width'', Y_integer (con_current_border_width con)],
        emit (dump_rect ''rect'' (con_rect con)),
        emit (dump_rect ''window_rect'' (con_window_rect con)),
        emit (dump_rect ''geometry'' (con_geometry con)),
        emit [ystr ''name'',
             (case con_window con of
                None \<Rightarrow> ystr (con_name con)
              | Some window \<Rightarrow>
                  (case window_name window of
                     None \<Rightarrow> ystr (con_name con)
                   | Some name \<Rightarrow> ystr name))],
        emit (if con_type con = CT_WORKSPACE then [ystr ''num'', Y_integer (con_num con)] else []),
        emit [ystr ''window'',
             (case con_window con of None \<Rightarrow> Y_null | Some window \<Rightarrow> Y_integer (window_id window))],
        emit [ystr ''nodes'', Y_array_open],
        (if con_type con \<noteq> CT_DOCKAREA \<or> \<not> inplace_restart
         then collect (map (\<lambda>node. dump_node env node inplace_restart) nodes)
         else emit []),
        emit [Y_array_close],
        emit [ystr ''floating_nodes'', Y_array_open],
        collect (map (\<lambda>node. dump_node env node inplace_restart) floating),
        emit [Y_array_close],
        emit ([ystr ''focus'', Y_array_open] @ map Y_integer (con_focus_head con) @ [Y_array_close]),
        emit [ystr ''fullscreen_mode'', Y_integer (con_fullscreen_mode con),
             ystr ''floating'',
             (case con_floating con of
                FLOATING_AUTO_OFF \<Rightarrow> ystr ''auto_off''
              | FLOATING_AUTO_ON \<Rightarrow> ystr ''auto_on''
              | FLOATING_USER_OFF \<Rightarrow> ystr ''user_off''
              | FLOATING_USER_ON \<Rightarrow> ystr ''user_on'')],
        emit ([ystr ''swallows'', Y_array_open] @ concat (map dump_swallow (con_swallow_head con))),
        emit (if inplace_restart
             then (case con_window con of
                     None \<Rightarrow> []
                   | Some window \<Rightarrow>
                       [Y_map_open,
                        ystr ''id'', Y_integer (window_id window),
                        ystr ''restart_mode'', Y_bool True,
                        Y_map_close])
             else []),
        emit [Y_array_close],
        emit (if inplace_restart \<and> con_window con \<noteq> None
             then [ystr ''depth'', Y_integer (con_depth con)] else []),
        emit [Y_map_close]]"

definition handle_tree :: handler_t where
  "handle_tree env fd' message message_type s =
     (case dump_node env (croot env) False of
        (logs, Inl e) \<Rightarrow> Inl e
      | (logs, Inr toks) \<Rightarrow>
          Inr (send_gen_buf env fd' I3_IPC_REPLY_TYPE_TREE toks (s\<lparr>trace := trace s @ logs\<rparr>)))"

subsection \<open>GET\_WORKSPACES\<close>

text \<open>The body of the inner loop, for the workspace \<open>ws\<close> on \<open>output\<close>.\<close>

definition dump_workspace :: "extern \<Rightarrow> Con option \<Rightarrow> Con \<Rightarrow> Con \<Rightarrow> gen_result" where
  "dump_workspace env focused_ws output ws =
     collect
       [c_assert (NDEBUG env) (con_type (con_of ws) = CT_WORKSPACE),
        emit [Y_map_open,
             ystr ''num'',
             (if con_num (con_of ws) = - 1 then Y_null else Y_integer (con_num (con_of ws))),
             ystr ''name'', ystr (con_name (con_of ws)),
             ystr ''visible'', Y_bool (workspace_is_visible env ws),
             ystr ''focused'',
             Y_bool (Some (con_addr (con_of ws)) = map_option (\<lambda>c. con_addr (con_of c)) focused_ws),
             ystr ''rect'', Y_map_open,
             ystr ''x'', Y_integer (rect_x (con_rect (con_of ws))),
             ystr ''y'', Y_integer (rect_y (con_rect (con_of ws))),
             ystr ''width'', Y_integer (rect_width (con_rect (con_of ws))),
             ystr ''height'', Y_integer (rect_height (con_rect (con_of ws))),
             Y_map_close,
             ystr ''output'', ystr (con_name (con_of output)),
             ystr ''urgent'', Y_bool (con_urgent (con_of ws)),
             Y_map_close]]"

definition dump_workspaces_of :: "extern \<Rightarrow> Con option \<Rightarrow> Con \<Rightarrow> gen_result" where
  "dump_workspaces_of env focused_ws output =
     (if con_is_internal env output then emit []
      else collect (map (dump_workspace env focused_ws output)
                        (nodes_head (output_get_content env output))))"

definition handle_get_workspaces :: handler_t where
  "handle_get_workspaces env fd' message message_type s =
     (let focused_ws = con_get_workspace env (focused env)
      in case collect
                ([emit [Y_array_open]] @
                 map (dump_workspaces_of env focused_ws) (nodes_head (croot env)) @
                 [emit [Y_array_close]]) of
           (logs, Inl e) \<Rightarrow> Inl e
         | (logs, Inr toks) \<Rightarrow>
             Inr (send_gen_buf env fd' I3_IPC_REPLY_TYPE_WORKSPACES toks
                    (s\<lparr>trace := trace s @ logs\<rparr>)))"

subsection \<open>GET\_OUTPUTS\<close>

definition dump_output :: "extern \<Rightarrow> Output \<Rightarrow> gen_tok list" where
  "dump_output env output =
     [Y_map_open,
      ystr ''name'', ystr (output_name output),
      ystr ''active'', Y_bool (output_active output),
      ystr ''primary'', Y_bool (output_primary output),
      ystr ''rect'', Y_map_open,
      ystr ''x'', Y_integer (rect_x (output_rect output)),
      ystr ''y'', Y_integer (rect_y (output_rect output)),
      ystr ''width'', Y_integer (rect_width (output_rect output)),
      ystr ''height'', Y_integer (rect_height (output_rect output)),
      Y_map_close,
      ystr ''current_workspace'',
      (case output_con output of
         None \<Rightarrow> Y_null
       | Some c \<Rightarrow>
           (case con_get_fullscreen_con env c CF_OUTPUT of
              None \<Rightarrow> Y_null
            | Some ws \<Rightarrow> ystr (con_name (con_of ws)))),
      Y_map_close]"

definition handle_get_outputs :: handler_t where
  "handle_get_outputs env fd' message message_type s =
     Inr (send_gen_buf env fd' I3_IPC_REPLY_TYPE_OUTPUTS
            ([Y_array_open] @ concat (map (dump_output env) (outputs env)) @ [Y_array_close]) s)"

subsection \<open>GET\_MARKS\<close>

definition handle_get_marks :: handler_t where
  "handle_get_marks env fd' message message_type s =
     Inr (send_gen_buf env fd' I3_IPC_REPLY_TYPE_MARKS
            ([Y_array_open] @
             concat (map (\<lambda>c. case con_mark (con_of c) of None \<Rightarrow> [] | Some mark \<Rightarrow> [ystr mark])
                         (all_cons env)) @
             [Y_array_close]) s)"

subsection \<open>GET\_VERSION\<close>

definition handle_get_version :: handler_t where
  "handle_get_version env fd' message message_type s =
     Inr (send_gen_buf env fd' I3_IPC_REPLY_TYPE_VERSION
            [Y_map_open,
             ystr ''major'', Y_integer (MAJOR_VERSION env),
             ystr ''minor'', Y_integer (MINOR_VERSION env),
             ystr ''patch'', Y_integer (PATCH_VERSION env),
             ystr ''human_readable'', ystr (I3_VERSION env),
             Y_map_close] s)"

subsection \<open>GET\_BAR\_CONFIG\<close>

text \<open>The lookup loop: \<open>continue\<close> while \<open>strcmp\<close> differs, \<open>config = current; break\<close> on a match.\<close>

fun find_config :: "string \<Rightarrow> Barconfig list \<Rightarrow> Barconfig option" where
  "find_config bar_id [] = None"
| "find_config bar_id (current # rest) =
     (if strcmp (config_id current) bar_id \<noteq> 0 then find_config bar_id rest else Some current)"

text \<open>The macro \<open>YSTR_IF_SET(name)\<close>, applied to the field's name and value.\<close>

definition YSTR_IF_SET :: "string \<Rightarrow> string option \<Rightarrow> gen_tok list" where
  "YSTR_IF_SET name v = (case v of None \<Rightarrow> [] | Some str \<Rightarrow> [ystr name, ystr str])"

definition dump_bar_colors :: "bar_colors \<Rightarrow> gen_tok list" where
  "dump_bar_colors colors =
     [ystr ''colors'', Y_map_open] @
     YSTR_IF_SET ''background'' (background colors) @
     YSTR_IF_SET ''statusline'' (statusline colors) @
     YSTR_IF_SET ''separator'' (separator colors) @
     YSTR_IF_SET ''focused_workspace_border'' (focused_workspace_border colors) @
     YSTR_IF_SET ''focused_workspace_bg'' (focused_workspace_bg colors) @
     YSTR_IF_SET ''focused_workspace_text'' (focused_workspace_text colors) @
     YSTR_IF_SET ''active_workspace_border'' (active_workspace_border colors) @
     YSTR_IF_SET ''active_workspace_bg'' (active_workspace_bg colors) @
     YSTR_IF_SET ''active_workspace_text'' (active_workspace_text colors) @
     YSTR_IF_SET ''inactive_workspace_border'' (inactive_workspace_border colors) @
     YSTR_IF_SET ''inactive_workspace_bg'' (inactive_workspace_bg colors) @
     YSTR_IF_SET ''inactive_workspace_text'' (inactive_workspace_text colors) @
     YSTR_IF_SET ''urgent_workspace_border'' (urgent_workspace_border colors) @
     YSTR_IF_SET ''urgent_workspace_bg'' (urgent_workspace_bg colors) @
     YSTR_IF_SET ''urgent_workspace_text'' (urgent_workspace_text colors) @
     [Y_map_close]"

text \<open>The \<open>else\<close> branch of \<open>if (!config)\<close>: the fields of the configuration found.\<close>

definition dump_bar_config :: "Barconfig \<Rightarrow> gen_tok list" where
  "dump_bar_config config =
     [ystr ''id'', ystr (config_id config)] @
     (if config_outputs config \<noteq> []
      then [ystr ''outputs'', Y_array_open] @ map ystr (config_outputs config) @ [Y_array_close]
      else []) @
     YSTR_IF_SET ''tray_output'' (config_tray_output config) @
     YSTR_IF_SET ''socket_path'' (config_socket_path config) @
     [ystr ''mode'',
      (case config_mode config of
         M_HIDE \<Rightarrow> ystr ''hide''
       | M_INVISIBLE \<Rightarrow> ystr ''invisible''
       | M_DOCK \<Rightarrow> ystr ''dock''),
      ystr ''hidden_state'',
      (case config_hidden_state config of
         S_SHOW \<Rightarrow> ystr ''show''
       | S_HIDE \<Rightarrow> ystr ''hide''),
      ystr ''modifier'',
      (case config_modifier config of
         M_CONTROL \<Rightarrow> ystr ''ctrl''
       | M_SHIFT \<Rightarrow> ystr ''shift''
       | M_MOD1 \<Rightarrow> ystr ''Mod1''
       | M_MOD2 \<Rightarrow> ystr ''Mod2''
       | M_MOD3 \<Rightarrow> ystr ''Mod3''
       | M_MOD5 \<Rightarrow> ystr ''Mod5''
       | _ \<Rightarrow> ystr ''Mod4''),
      ystr ''position'',
      (if config_position config = P_BOTTOM then ystr ''bottom'' else ystr ''top'')] @
     YSTR_IF_SET ''status_command'' (config_status_command config) @
     YSTR_IF_SET ''font'' (config_font config) @
     [ystr ''workspace_buttons'', Y_bool (\<not> config_hide_workspace_buttons config),
      ystr ''binding_mode_indicator'', Y_bool (\<not> config_hide_binding_mode_indicator config),
      ystr ''verbose'', Y_bool (config_verbose config)] @
     dump_bar_colors (config_colors config)"

definition handle_get_bar_config :: handler_t where
  \<open>handle_get_bar_config env fd' message message_type s =
     (if length message = 0 then
        Inr (send_gen_buf env fd' I3_IPC_REPLY_TYPE_BAR_CONFIG
               ([Y_array_open] @ map (\<lambda>current. ystr (config_id current)) (barconfigs env) @
                [Y_array_close]) s)
      else
        (let bar_id = strncpy_buf message (length message);
             s1 = log_event LOG ''IPC: looking for config for bar ID "%s"'' s;
             config = find_config bar_id (barconfigs env)
         in Inr (send_gen_buf env fd' I3_IPC_REPLY_TYPE_BAR_CONFIG
                   ([Y_map_open] @
                    (case config of
                       None \<Rightarrow> [ystr ''id'', Y_null]
                     | Some c \<Rightarrow> dump_bar_config c) @
                    [Y_map_close]) s1)))\<close>

subsection \<open>SUBSCRIBE\<close>

text \<open>
  The pointer \<open>client\<close> into the registry is the position of the client in \<open>all_clients\<close>.
  \<open>add_subscription\<close> is the parser's string callback: it grows \<open>events\<close> by a copy of the
  \<open>len\<close> bytes it is given.
\<close>

definition add_subscription :: "nat \<Rightarrow> string \<Rightarrow> ipc_state \<Rightarrow> ipc_state" where
  "add_subscription client str s =
     (let c = all_clients s ! client;
          c' = c\<lparr>events := events c @ [str]\<rparr>
      in \<lparr>all_clients = (all_clients s)[client := c'],
          trace = trace s @
            [Log DLOG ''should add subscription to extra %p, sub %.*s'',
             Log DLOG ''client is now subscribed to:''] @
            map (\<lambda>e. Log DLOG ''event %s'') (events c') @
            [Log DLOG ''(done)'']\<rparr>)"

text \<open>
  The callbacks struct is zeroed and only \<open>yajl_string\<close> is set: the parser calls
  \<open>add_subscription\<close> on each string value and nothing on any other event. The callback
  returns 1 always, so it never cancels the parse.
\<close>

fun yajl_callbacks :: "nat \<Rightarrow> yajl_event \<Rightarrow> ipc_state \<Rightarrow> ipc_state" where
  "yajl_callbacks client (Yajl_string str) s = add_subscription client str s"
| "yajl_callbacks client _ s = s"

fun run_callbacks :: "nat \<Rightarrow> yajl_event list \<Rightarrow> ipc_state \<Rightarrow> ipc_state" where
  "run_callbacks client [] s = s"
| "run_callbacks client (ev # evs) s = run_callbacks client evs (yajl_callbacks client ev s)"

text \<open>The search loop of the handler: the position of the first client with this descriptor.\<close>

fun find_client :: "int \<Rightarrow> ipc_client list \<Rightarrow> nat option" where
  "find_client fd' [] = None"
| "find_client fd' (current # rest) =
     (if fd current \<noteq> fd' then map_option Suc (find_client fd' rest) else Some 0)"

definition reply_false :: string where
  \<open>reply_false = ''{"success":false}''\<close>

definition reply_true :: string where
  \<open>reply_true = ''{"success":true}''\<close>

definition handle_subscribe :: handler_t where
  "handle_subscribe env fd' message message_type s =
     (case find_client fd' (all_clients s) of
        None \<Rightarrow>
          Inr (log_event ELOG ''Could not find ipc_client data structure for fd %d'' s)
      | Some client \<Rightarrow>
          (let (evs, stat) = yajl_parse env message;
               s1 = run_callbacks client evs s
           in if stat \<noteq> yajl_status_ok then
                Inr (ipc_send_message fd' (strlen reply_false) I3_IPC_REPLY_TYPE_SUBSCRIBE reply_false
                       (log_event ELOG ''YAJL parse error: %s'' s1))
              else
                Inr (ipc_send_message fd' (strlen reply_true) I3_IPC_REPLY_TYPE_SUBSCRIBE reply_true s1)))"

section \<open>ipc\_receive\_message\<close>

text \<open>The table \<open>handlers[8]\<close>: the index of a handler is the numeric value of its message type.\<close>

definition handlers :: "handler_t list" where
  "handlers =
     [handle_command,
      handle_get_workspaces,
      handle_subscribe,
      handle_get_outputs,
      handle_tree,
      handle_get_marks,
      handle_get_bar_config,
      handle_get_version]"

text \<open>
  What \<open>ipc_recv_message\<close> (libi3) produced: its return value, the \<open>errno\<close> it left, and on
  success the type and the payload of the message read.
\<close>

record recv_result =
  ret :: int
  errno :: errno_t
  message_type :: "32 word"
  message :: string

text \<open>
  The removal loop of the teardown: the first client with this descriptor has its
  subscription strings freed, is unlinked and freed, and the loop stops.
\<close>

fun delete_client :: "int \<Rightarrow> ipc_client list \<Rightarrow> ipc_client list \<times> io_event list" where
  "delete_client fd' [] = ([], [])"
| "delete_client fd' (current # rest) =
     (if fd current \<noteq> fd' then
        (let (rest', frees) = delete_client fd' rest in (current # rest', frees))
      else (rest, map Free_string (events current) @ [Free_client (fd current)]))"

definition ipc_receive_message :: "extern \<Rightarrow> int \<Rightarrow> recv_result \<Rightarrow> ipc_state \<Rightarrow> error + ipc_state" where
  "ipc_receive_message env w_fd r s =
     (if ret r < 0 then
        (if ret r = - 1 \<and> errno r = EAGAIN then Inr s
         else
           (let (clients', frees) = delete_client w_fd (all_clients s)
            in Inr \<lparr>all_clients = clients',
                    trace = trace s @ [Close_fd w_fd] @ frees @
                      [Ev_io_stop w_fd, Free_watcher w_fd, Log DLOG ''IPC: client disconnected'']\<rparr>))
      else if unat (message_type r) \<ge> length handlers then
        Inr (log_event DLOG ''Unhandled message type: %d'' s)
      else (handlers ! unat (message_type r)) env w_fd (message r) (message_type r) s)"

section \<open>Notions of the specification\<close>

text \<open>
  Case-insensitive exact match of two event names, as the specification words it: the
  names are equal once every letter is lowered.
\<close>

definition case_insensitive_match :: "string \<Rightarrow> string \<Rightarrow> bool" where
  "case_insensitive_match a b \<longleftrightarrow> map tolower (c_str a) = map tolower (c_str b)"

definition subscribed :: "string \<Rightarrow> ipc_client \<Rightarrow> bool" where
  "subscribed event c \<longleftrightarrow> (\<exists>e \<in> set (events c). case_insensitive_match e event)"

text \<open>The string tokens among the events of a parse, in order.\<close>

fun string_tokens :: "yajl_event list \<Rightarrow> string list" where
  "string_tokens [] = []"
| "string_tokens (Yajl_string str # evs) = str # string_tokens evs"
| "string_tokens (_ # evs) = string_tokens evs"

text \<open>
  A well-formed JSON document, the events a callback parser meets in it (a key of an
  object is reported as a key, not as a string value), and its string values in document
  order, wherever they are nested.
\<close>

datatype json =
    JNull | JBool bool | JNumber string | JString string
  | JArray "json list" | JObject "(string \<times> json) list"

fun json_events :: "json \<Rightarrow> yajl_event list" where
  "json_events JNull = [Yajl_null]"
| "json_events (JBool b) = [Yajl_boolean b]"
| "json_events (JNumber n) = [Yajl_number n]"
| "json_events (JString str) = [Yajl_string str]"
| "json_events (JArray vs) = [Yajl_start_array] @ concat (map json_events vs) @ [Yajl_end_array]"
| "json_events (JObject kvs) =
     [Yajl_start_map] @ concat (map (\<lambda>kv. Yajl_map_key (fst kv) # json_events (snd kv)) kvs) @
     [Yajl_end_map]"

fun json_strings :: "json \<Rightarrow> string list" where
  "json_strings (JString str) = [str]"
| "json_strings (JArray vs) = concat (map json_strings vs)"
| "json_strings (JObject kvs) = concat (map (\<lambda>kv. json_strings (snd kv)) kvs)"
| "json_strings _ = []"

text \<open>The fixed token of each recognized layout value; the default value has none.\<close>

fun layout_token :: "layout_t \<Rightarrow> string option" where
  "layout_token L_SPLITV = Some ''splitv''"
| "layout_token L_SPLITH = Some ''splith''"
| "layout_token L_STACKED = Some ''stacked''"
| "layout_token L_TABBED = Some ''tabbed''"
| "layout_token L_DOCKAREA = Some ''dockarea''"
| "layout_token L_OUTPUT = Some ''output''"
| "layout_token L_DEFAULT = None"

text \<open>
  No assertion stands in the way of serializing a tree: no node that is visited has the
  default layout, and the workspace layout of each is one of default, stacked and tabbed.
  The children of a dock area are not visited on an in-place restart.
\<close>

fun serializable :: "bool \<Rightarrow> Con \<Rightarrow> bool" where
  "serializable inplace_restart (Con con nodes floating) \<longleftrightarrow>
     con_layout con \<noteq> L_DEFAULT \<and>
     con_workspace_layout con \<in> {L_DEFAULT, L_STACKED, L_TABBED} \<and>
     (con_type con \<noteq> CT_DOCKAREA \<or> \<not> inplace_restart \<longrightarrow>
        (\<forall>node \<in> set nodes. serializable inplace_restart node)) \<and>
     (\<forall>node \<in> set floating. serializable inplace_restart node)"

text \<open>The registry without the entry at position \<open>i\<close>.\<close>

definition without :: "nat \<Rightarrow> 'a list \<Rightarrow> 'a list" where
  "without i xs = take i xs @ drop (Suc i) xs"

section \<open>Example inputs\<close>

definition example_rect :: Rect where
  "example_rect = \<lparr>rect_x = 0, rect_y = 0, rect_width = 1280, rect_height = 800\<rparr>"

definition example_con :: "int \<Rightarrow> con_type_t \<Rightarrow> layout_t \<Rightarrow> string \<Rightarrow> con_fields" where
  "example_con addr ty lay name =
     \<lparr>con_addr = addr, con_type = ty, con_scratchpad_state = SCRATCHPAD_NONE, con_percent = 0,
      con_urgent = False, con_mark = None, con_layout = lay, con_workspace_layout = L_DEFAULT,
      con_border_style = BS_NORMAL, con_current_border_width = 2, con_rect = example_rect,
      con_window_rect = example_rect, con_geometry = example_rect, con_name = name,
      con_window = None, con_num = - 1, con_focus_head = [], con_fullscreen_mode = 0,
      con_floating = FLOATING_AUTO_OFF, con_swallow_head = [], con_depth = 0\<rparr>"

definition example_bar :: "string \<Rightarrow> Barconfig" where
  "example_bar ident =
     \<lparr>config_id = ident, config_outputs = [], config_tray_output = None,
      config_socket_path = None, config_mode = M_DOCK, config_hidden_state = S_HIDE,
      config_modifier = M_MOD4, config_position = P_BOTTOM, config_status_command = None,
      config_font = None, config_hide_workspace_buttons = False,
      config_hide_binding_mode_indicator = False, config_verbose = False,
      config_colors =
        \<lparr>background = None, statusline = None, separator = None,
         focused_workspace_border = None, focused_workspace_bg = None,
         focused_workspace_text = None, active_workspace_border = None,
         active_workspace_bg = None, active_workspace_text = None,
         inactive_workspace_border = None, inactive_workspace_bg = None,
         inactive_workspace_text = None, urgent_workspace_border = None,
         urgent_workspace_bg = None, urgent_workspace_text = None\<rparr>\<rparr>"

text \<open>A stand-in for the generator's text: one word per token, strings in brackets.\<close>

fun example_tok_text :: "gen_tok \<Rightarrow> string" where
  "example_tok_text Y_map_open = ''{ ''"
| "example_tok_text Y_map_close = ''} ''"
| "example_tok_text Y_array_open = ''[ ''"
| "example_tok_text Y_array_close = ''] ''"
| "example_tok_text (Y_string str) = ''<'' @ str @ ''> ''"
| "example_tok_text (Y_integer i) = ''int ''"
| "example_tok_text (Y_double d) = ''double ''"
| "example_tok_text (Y_bool b) = (if b then ''true '' else ''false '')"
| "example_tok_text Y_null = ''null ''"

text \<open>
  An environment for the examples: a development build, a root container with the given
  layout and no children, two bar configurations, and a parser that reports the given
  events and status for every buffer.
\<close>

definition example_env :: "layout_t \<Rightarrow> yajl_event list \<times> yajl_status \<Rightarrow> extern" where
  "example_env lay parsed =
     \<lparr>NDEBUG = False,
      yajl_parse = (\<lambda>buf. parsed),
      yajl_gen_get_buf = (\<lambda>gen. concat (map example_tok_text gen)),
      parse_command = (\<lambda>command s. (\<lparr>json_gen = [], needs_tree_render = False\<rparr>, s)),
      tree_render = (\<lambda>s. s),
      croot = Con (example_con 1 CT_ROOT lay ''root'') [] [],
      focused = Con (example_con 1 CT_ROOT lay ''root'') [] [],
      all_cons = [],
      outputs = [],
      barconfigs = [example_bar ''bar-0'', example_bar ''bar-1''],
      con_is_split = (\<lambda>c. False),
      con_orientation = (\<lambda>c. NO_ORIENTATION),
      con_get_workspace = (\<lambda>c. None),
      con_is_internal = (\<lambda>c. False),
      output_get_content = (\<lambda>c. c),
      workspace_is_visible = (\<lambda>c. False),
      con_get_fullscreen_con = (\<lambda>c m. None),
      con_type_value = (\<lambda>t. 0),
      MAJOR_VERSION = 4, MINOR_VERSION = 7, PATCH_VERSION = 0, I3_VERSION = ''4.7''\<rparr>"

text \<open>What \<open>dump_node\<close> generates for the root container of the example, stacked.\<close>

definition example_tree_tokens :: "gen_tok list" where
  "example_tree_tokens =
     [Y_map_open, Y_string ''id'', Y_integer 1, Y_string ''type'', Y_integer 0,
      Y_string ''orientation'', Y_string ''none'', Y_string ''scratchpad_state'', Y_string ''none'',
      Y_string ''percent'', Y_null, Y_string ''urgent'', Y_bool False,
      Y_string ''focused'', Y_bool True, Y_string ''layout'', Y_string ''stacked'',
      Y_string ''workspace_layout'', Y_string ''default'', Y_string ''last_split_layout'',
      Y_string ''splith'', Y_string ''border'', Y_string ''normal'',
      Y_string ''current_border_width'', Y_integer 2,
      Y_string ''rect'', Y_map_open, Y_string ''x'', Y_integer 0, Y_string ''y'', Y_integer 0,
      Y_string ''width'', Y_integer 1280, Y_string ''height'', Y_integer 800, Y_map_close,
      Y_string ''window_rect'', Y_map_open, Y_string ''x'', Y_integer 0, Y_string ''y'', Y_integer 0,
      Y_string ''width'', Y_integer 1280, Y_string ''height'', Y_integer 800, Y_map_close,
      Y_string ''geometry'', Y_map_open, Y_string ''x'', Y_integer 0, Y_string ''y'', Y_integer 0,
      Y_string ''width'', Y_integer 1280, Y_string ''height'', Y_integer 800, Y_map_close,
      Y_string ''name'', Y_string ''root'', Y_string ''window'', Y_null,
      Y_string ''nodes'', Y_array_open, Y_array_close,
      Y_string ''floating_nodes'', Y_array_open, Y_array_close,
      Y_string ''focus'', Y_array_open, Y_array_close,
      Y_string ''fullscreen_mode'', Y_integer 0, Y_string ''floating'', Y_string ''auto_off'',
      Y_string ''swallows'', Y_array_open, Y_array_close, Y_map_close]"

section \<open>Facts about the C string functions\<close>

lemma c_compare_eq_0_iff:
  "0 \<notin> set xs \<Longrightarrow> 0 \<notin> set ys \<Longrightarrow> c_compare xs ys = 0 \<longleftrightarrow> xs = ys"
  by (induction xs ys rule: c_compare.induct) auto

lemma tolower_eq_NUL_iff: "tolower c = CHR 0x00 \<longleftrightarrow> c = CHR 0x00"
  by (cases c) (auto simp: Let_def)

lemma of_char_eq_0_iff: "(of_char c :: nat) = 0 \<longleftrightarrow> c = CHR 0x00"
  using of_char_eq_iff [of c "CHR 0x00", where 'a = nat] by simp

lemma NUL_notin_c_str: "CHR 0x00 \<notin> set (c_str s)"
  by (auto simp: c_str_def dest: set_takeWhileD)

lemma c_str_idem: "c_str (c_str s) = c_str s"
  by (simp add: c_str_def)

lemma c_str_no_NUL: "CHR 0x00 \<notin> set s \<Longrightarrow> c_str s = s"
  unfolding c_str_def takeWhile_eq_all_conv by blast

lemma take_strlen: "take (strlen p) p = c_str p"
  unfolding strlen_def c_str_def by (rule takeWhile_eq_take [symmetric])

lemma ystr_eq: "ystr str = Y_string (c_str str)"
  by (simp add: ystr_def take_strlen)

lemma strncpy_buf_all: "strncpy_buf src (length src) = c_str src"
  by (simp add: strncpy_buf_def)

lemma strcasecmp_eq_0_iff: "strcasecmp a b = 0 \<longleftrightarrow> case_insensitive_match a b"
proof -
  have nz: "0 \<notin> set (map (\<lambda>c. (of_char (tolower c) :: nat)) (c_str s))" for s
    using NUL_notin_c_str [of s] by (auto simp: of_char_eq_0_iff tolower_eq_NUL_iff)
  have "strcasecmp a b = 0 \<longleftrightarrow>
        map (\<lambda>c. (of_char (tolower c) :: nat)) (c_str a) = map (\<lambda>c. of_char (tolower c)) (c_str b)"
    unfolding strcasecmp_def by (rule c_compare_eq_0_iff [OF nz nz])
  also have "\<dots> \<longleftrightarrow> map of_char (map tolower (c_str a)) = (map of_char (map tolower (c_str b)) :: nat list)"
    by (simp add: comp_def)
  also have "\<dots> \<longleftrightarrow> map tolower (c_str a) = map tolower (c_str b)"
    by (rule inj_map_eq_map) (simp add: inj_on_def)
  finally show ?thesis by (simp add: case_insensitive_match_def)
qed

lemma strcmp_eq_0_iff: "strcmp a b = 0 \<longleftrightarrow> c_str a = c_str b"
proof -
  have nz: "0 \<notin> set (map (of_char :: char \<Rightarrow> nat) (c_str s))" for s
    using NUL_notin_c_str [of s] by (auto simp: of_char_eq_0_iff)
  have "strcmp a b = 0 \<longleftrightarrow> map (of_char :: char \<Rightarrow> nat) (c_str a) = map of_char (c_str b)"
    unfolding strcmp_def by (rule c_compare_eq_0_iff [OF nz nz])
  also have "\<dots> \<longleftrightarrow> c_str a = c_str b"
    by (rule inj_map_eq_map) (simp add: inj_on_def)
  finally show ?thesis .
qed

section \<open>Facts about the trace\<close>

lemma sent_append: "sent (xs @ ys) = sent xs @ sent ys"
  by (induction xs rule: sent.induct) simp_all

lemma freed_strings_append: "freed_strings (xs @ ys) = freed_strings xs @ freed_strings ys"
  by (induction xs rule: freed_strings.induct) simp_all

lemma sent_map_Log: "sent (map (\<lambda>e. Log lvl (f e)) es) = []"
  by (induction es) simp_all

lemma sent_map_Free_string: "sent (map Free_string es) = []"
  by (induction es) simp_all

lemma freed_strings_map_Free_string: "freed_strings (map Free_string es) = es"
  by (induction es) simp_all

section \<open>ipc\_send\_event\<close>

lemma interested_iff: "interested es event \<longleftrightarrow> (\<exists>e\<in>set es. case_insensitive_match e event)"
  by (induction es) (auto simp: strcasecmp_eq_0_iff)

lemma send_event_loop_clients:
  "all_clients (send_event_loop cs event mt payload s) = all_clients s"
  by (induction cs arbitrary: s) (simp_all add: ipc_send_message_def)

lemma send_event_loop_sent:
  "sent (trace (send_event_loop cs event mt payload s)) =
   sent (trace s) @ map (\<lambda>c. (fd c, Message_type mt, c_str payload)) (filter (subscribed event) cs)"
  by (induction cs arbitrary: s)
     (simp_all add: ipc_send_message_def sent_append take_strlen interested_iff subscribed_def)

lemma send_event_loop_freed:
  "freed_strings (trace (send_event_loop cs event mt payload s)) = freed_strings (trace s)"
  by (induction cs arbitrary: s) (simp_all add: ipc_send_message_def freed_strings_append)

text \<open>
  Claim C1. For every registry state and every call of \<open>ipc_send_event\<close>, the frames
  written by the call are, in registry order, one frame (the message type, the payload)
  for each registered client whose subscription list holds an entry matching the event name
  case-insensitively, however often such an entry occurs in its list, and no frame for any
  other client.
\<close>

theorem ipc_send_event_delivery:
  "sent (trace (ipc_send_event event mt payload s)) =
   sent (trace s) @
   map (\<lambda>c. (fd c, Message_type mt, c_str payload)) (filter (subscribed event) (all_clients s))"
  unfolding ipc_send_event_def by (rule send_event_loop_sent)

theorem ipc_send_event_delivery_witness:
  \<open>sent (trace (ipc_send_event ''workspace'' 0x80000000 ''{"change":"focus"}''
      \<lparr>all_clients =
         [\<lparr>fd = 3, events = [''Workspace'', ''workspace'']\<rparr>,
          \<lparr>fd = 4, events = [''output'']\<rparr>,
          \<lparr>fd = 5, events = []\<rparr>,
          \<lparr>fd = 6, events = [''output'', ''WORKSPACE'']\<rparr>],
       trace = []\<rparr>)) =
   [(3, Message_type 0x80000000, ''{"change":"focus"}''),
    (6, Message_type 0x80000000, ''{"change":"focus"}'')]\<close>
  using ipc_send_event_delivery [of "''workspace''" "0x80000000" \<open>''{"change":"focus"}''\<close>
      "\<lparr>all_clients =
         [\<lparr>fd = 3, events = [''Workspace'', ''workspace'']\<rparr>,
          \<lparr>fd = 4, events = [''output'']\<rparr>,
          \<lparr>fd = 5, events = []\<rparr>,
          \<lparr>fd = 6, events = [''output'', ''WORKSPACE'']\<rparr>],
       trace = []\<rparr>"]
  by (simp add: subscribed_def case_insensitive_match_def c_str_def)

text \<open>
  Claim C10. \<open>ipc_send_event\<close> does not change the registry: after the call it holds
  the same clients in the same order, each with the same subscription list.
\<close>

theorem ipc_send_event_frame:
  "all_clients (ipc_send_event event mt payload s) = all_clients s"
  unfolding ipc_send_event_def by (rule send_event_loop_clients)

theorem ipc_send_event_frame_witness:
  "all_clients (ipc_send_event ''workspace'' 0x80000000 ''{}''
      \<lparr>all_clients = [\<lparr>fd = 3, events = [''Workspace'', ''workspace'']\<rparr>, \<lparr>fd = 4, events = []\<rparr>],
       trace = []\<rparr>) =
   [\<lparr>fd = 3, events = [''Workspace'', ''workspace'']\<rparr>, \<lparr>fd = 4, events = []\<rparr>]"
  using ipc_send_event_frame [of "''workspace''" "0x80000000" "''{}''"
      "\<lparr>all_clients = [\<lparr>fd = 3, events = [''Workspace'', ''workspace'']\<rparr>, \<lparr>fd = 4, events = []\<rparr>],
       trace = []\<rparr>"]
  by simp


section \<open>handle\_subscribe\<close>

lemma find_client_Some:
  "find_client fd' cs = Some i \<Longrightarrow> i < length cs \<and> fd (cs ! i) = fd' \<and> (\<forall>j<i. fd (cs ! j) \<noteq> fd')"
proof (induction cs arbitrary: i)
  case Nil
  then show ?case by simp
next
  case (Cons c cs)
  show ?case
  proof (cases "fd c = fd'")
    case True
    with Cons.prems show ?thesis by simp
  next
    case False
    with Cons.prems obtain k where k: "find_client fd' cs = Some k" "i = Suc k"
      by auto
    from Cons.IH [OF k(1)] False k(2) show ?thesis
      by (auto simp: nth_Cons split: nat.splits)
  qed
qed

lemma add_subscription_clients:
  "all_clients (add_subscription i str s) =
   (all_clients s)[i := (all_clients s ! i)\<lparr>events := events (all_clients s ! i) @ [str]\<rparr>]"
  by (simp add: add_subscription_def Let_def)

lemma add_subscription_sent: "sent (trace (add_subscription i str s)) = sent (trace s)"
  by (simp add: add_subscription_def Let_def sent_append sent_map_Log)

lemma run_callbacks_clients:
  "i < length (all_clients s) \<Longrightarrow>
   all_clients (run_callbacks i evs s) =
   (all_clients s)[i := (all_clients s ! i)\<lparr>events := events (all_clients s ! i) @ string_tokens evs\<rparr>]"
proof (induction evs arbitrary: s)
  case Nil
  then show ?case by simp
next
  case (Cons ev evs)
  show ?case
  proof (cases ev)
    case (Yajl_string str)
    have len: "i < length (all_clients (add_subscription i str s))"
      using Cons.prems by (simp add: add_subscription_clients)
    show ?thesis
      using Cons.prems
      by (simp add: Yajl_string Cons.IH [OF len] add_subscription_clients)
  qed (use Cons in simp_all)
qed

lemma run_callbacks_sent: "sent (trace (run_callbacks i evs s)) = sent (trace s)"
proof (induction evs arbitrary: s)
  case Nil
  then show ?case by simp
next
  case (Cons ev evs)
  then show ?case by (cases ev) (simp_all add: add_subscription_sent)
qed

lemma c_str_reply_true: \<open>take (strlen reply_true) reply_true = ''{"success":true}''\<close>
  by (simp add: take_strlen reply_true_def c_str_def)

lemma c_str_reply_false: \<open>take (strlen reply_false) reply_false = ''{"success":false}''\<close>
  by (simp add: take_strlen reply_false_def c_str_def)

lemma handle_subscribe_found:
  assumes "find_client fd' (all_clients s) = Some i"
      and "yajl_parse env msg = (evs, stat)"
  shows \<open>\<exists>s'. handle_subscribe env fd' msg mt s = Inr s' \<and>
           all_clients s' =
             (all_clients s)[i := (all_clients s ! i)\<lparr>events := events (all_clients s ! i) @ string_tokens evs\<rparr>] \<and>
           sent (trace s') =
             sent (trace s) @
             [(fd', I3_IPC_REPLY_TYPE_SUBSCRIBE,
               if stat = yajl_status_ok then ''{"success":true}'' else ''{"success":false}'')]\<close>
proof -
  have len: "i < length (all_clients s)"
    using find_client_Some [OF assms(1)] by simp
  show ?thesis
    using assms
    by (simp add: handle_subscribe_def ipc_send_message_def log_event_def sent_append Let_def
        run_callbacks_clients [OF len] run_callbacks_sent c_str_reply_true c_str_reply_false)
qed

text \<open>
  Claim C2. For every SUBSCRIBE request of a registered client, whatever the parser reports:
  each string token the parser meets is appended as it is (not lower-cased) to the
  requesting client's subscription list, one element per token and without deduplication;
  when the parse fails the names appended before the failure stay and the reply is
  \<open>{"success":false}\<close>; when it succeeds the reply is \<open>{"success":true}\<close>; in both
  cases exactly one reply is written, to the requesting connection, and every other entry
  of the registry is unchanged.
\<close>

theorem handle_subscribe_appends:
  assumes "find_client fd' (all_clients s) = Some i"
      and "yajl_parse env msg = (evs, stat)"
  shows \<open>\<exists>s'. handle_subscribe env fd' msg mt s = Inr s' \<and>
           i < length (all_clients s) \<and> fd (all_clients s ! i) = fd' \<and>
           all_clients s' =
             (all_clients s)[i := (all_clients s ! i)\<lparr>events := events (all_clients s ! i) @ string_tokens evs\<rparr>] \<and>
           events (all_clients s' ! i) = events (all_clients s ! i) @ string_tokens evs \<and>
           length (events (all_clients s' ! i)) =
             length (events (all_clients s ! i)) + length (string_tokens evs) \<and>
           length (all_clients s') = length (all_clients s) \<and>
           (\<forall>j. j \<noteq> i \<longrightarrow> all_clients s' ! j = all_clients s ! j) \<and>
           sent (trace s') =
             sent (trace s) @
             [(fd', I3_IPC_REPLY_TYPE_SUBSCRIBE,
               if stat = yajl_status_ok then ''{"success":true}'' else ''{"success":false}'')]\<close>
proof -
  from handle_subscribe_found [OF assms, of mt] obtain s' where
    s': "handle_subscribe env fd' msg mt s = Inr s'"
        "all_clients s' =
           (all_clients s)[i := (all_clients s ! i)\<lparr>events := events (all_clients s ! i) @ string_tokens evs\<rparr>]"
        \<open>sent (trace s') =
           sent (trace s) @
           [(fd', I3_IPC_REPLY_TYPE_SUBSCRIBE,
             if stat = yajl_status_ok then ''{"success":true}'' else ''{"success":false}'')]\<close>
    by blast
  have i: "i < length (all_clients s)" "fd (all_clients s ! i) = fd'"
    using find_client_Some [OF assms(1)] by simp_all
  have "events (all_clients s' ! i) = events (all_clients s ! i) @ string_tokens evs"
    using i s'(2) by simp
  moreover have "length (all_clients s') = length (all_clients s)"
    using s'(2) by simp
  moreover have "\<forall>j. j \<noteq> i \<longrightarrow> all_clients s' ! j = all_clients s ! j"
    using s'(2) by simp
  ultimately show ?thesis
    using s' i by simp
qed

lemma handle_subscribe_not_found:
  "find_client fd' (all_clients s) = None \<Longrightarrow>
   handle_subscribe env fd' msg mt s =
     Inr (s\<lparr>trace := trace s @ [Log ELOG ''Could not find ipc_client data structure for fd %d'']\<rparr>)"
  by (simp add: handle_subscribe_def log_event_def)

theorem handle_subscribe_appends_witness:
  \<open>\<exists>s'. handle_subscribe
           (example_env L_SPLITH
              ([Yajl_start_array, Yajl_string ''Workspace'', Yajl_string ''workspace''], yajl_status_error))
           4 ''["Workspace","workspace",'' 2
           \<lparr>all_clients = [\<lparr>fd = 3, events = [''output'']\<rparr>, \<lparr>fd = 4, events = [''workspace'']\<rparr>],
            trace = []\<rparr> = Inr s' \<and>
         all_clients s' =
           [\<lparr>fd = 3, events = [''output'']\<rparr>,
            \<lparr>fd = 4, events = [''workspace'', ''Workspace'', ''workspace'']\<rparr>] \<and>
         sent (trace s') = [(4, I3_IPC_REPLY_TYPE_SUBSCRIBE, ''{"success":false}'')]\<close>
  using handle_subscribe_appends
    [of 4 "\<lparr>all_clients = [\<lparr>fd = 3, events = [''output'']\<rparr>, \<lparr>fd = 4, events = [''workspace'']\<rparr>],
            trace = []\<rparr>" 1
        "example_env L_SPLITH
           ([Yajl_start_array, Yajl_string ''Workspace'', Yajl_string ''workspace''], yajl_status_error)"
        \<open>''["Workspace","workspace",''\<close>
        "[Yajl_start_array, Yajl_string ''Workspace'', Yajl_string ''workspace'']"
        yajl_status_error 2]
  by (fastforce simp: example_env_def)

lemma string_tokens_append: "string_tokens (xs @ ys) = string_tokens xs @ string_tokens ys"
  by (induction xs rule: string_tokens.induct) simp_all

lemma string_tokens_concat: "string_tokens (concat xss) = concat (map string_tokens xss)"
  by (induction xss) (simp_all add: string_tokens_append)

lemma string_tokens_json_events: "string_tokens (json_events doc) = json_strings doc"
proof (induction doc)
  case (JArray vs)
  then show ?case
    by (simp add: string_tokens_append string_tokens_concat comp_def cong: map_cong)
next
  case (JObject kvs)
  have eq: "map (\<lambda>kv. string_tokens (json_events (snd kv))) kvs =
        map (\<lambda>kv. json_strings (snd kv)) kvs"
  proof (rule map_cong [OF refl])
    fix kv assume "kv \<in> set kvs"
    then show "string_tokens (json_events (snd kv)) = json_strings (snd kv)"
      by (rule JObject.IH [OF _ Basic_BNFs.snds.intros])
  qed
  show ?case
    by (simp add: string_tokens_append string_tokens_concat comp_def eq)
qed simp_all

text \<open>
  Claim C9. The SUBSCRIBE handler asks nothing of the shape of the payload: for every
  well-formed document, an array or not, the string values of the document, wherever they
  are nested, are appended in document order and the reply is \<open>{"success":true}\<close>; a
  document without string values leaves the registry as it was.
\<close>

theorem handle_subscribe_any_shape:
  assumes "find_client fd' (all_clients s) = Some i"
      and "yajl_parse env msg = (json_events doc, yajl_status_ok)"
  shows \<open>\<exists>s'. handle_subscribe env fd' msg mt s = Inr s' \<and>
           all_clients s' =
             (all_clients s)[i := (all_clients s ! i)\<lparr>events := events (all_clients s ! i) @ json_strings doc\<rparr>] \<and>
           (json_strings doc = [] \<longrightarrow> all_clients s' = all_clients s) \<and>
           sent (trace s') =
             sent (trace s) @ [(fd', I3_IPC_REPLY_TYPE_SUBSCRIBE, ''{"success":true}'')]\<close>
proof -
  from handle_subscribe_found [OF assms, of mt] obtain s' where
    s': "handle_subscribe env fd' msg mt s = Inr s'"
        "all_clients s' =
           (all_clients s)[i := (all_clients s ! i)\<lparr>events := events (all_clients s ! i) @ json_strings doc\<rparr>]"
        \<open>sent (trace s') =
           sent (trace s) @ [(fd', I3_IPC_REPLY_TYPE_SUBSCRIBE, ''{"success":true}'')]\<close>
    by (auto simp: string_tokens_json_events)
  have "json_strings doc = [] \<longrightarrow> all_clients s' = all_clients s"
    using s'(2) by simp
  with s' show ?thesis by blast
qed


theorem handle_subscribe_any_shape_witness:
  \<open>(\<exists>s'. handle_subscribe
            (example_env L_SPLITH
               (json_events (JArray [JObject [(''events'', JArray [JString ''window''])], JString ''output'']),
                yajl_status_ok))
            4 ''[{"events":["window"]},"output"]'' 2
            \<lparr>all_clients = [\<lparr>fd = 3, events = []\<rparr>, \<lparr>fd = 4, events = [''workspace'']\<rparr>], trace = []\<rparr>
          = Inr s' \<and>
          all_clients s' =
            [\<lparr>fd = 3, events = []\<rparr>, \<lparr>fd = 4, events = [''workspace'', ''window'', ''output'']\<rparr>] \<and>
          sent (trace s') = [(4, I3_IPC_REPLY_TYPE_SUBSCRIBE, ''{"success":true}'')]) \<and>
   (\<exists>s'. handle_subscribe (example_env L_SPLITH (json_events (JString ''workspace''), yajl_status_ok))
            3 ''"workspace"'' 2
            \<lparr>all_clients = [\<lparr>fd = 3, events = []\<rparr>, \<lparr>fd = 4, events = [''workspace'']\<rparr>], trace = []\<rparr>
          = Inr s' \<and>
          all_clients s' = [\<lparr>fd = 3, events = [''workspace'']\<rparr>, \<lparr>fd = 4, events = [''workspace'']\<rparr>] \<and>
          sent (trace s') = [(3, I3_IPC_REPLY_TYPE_SUBSCRIBE, ''{"success":true}'')]) \<and>
   (\<exists>s'. handle_subscribe (example_env L_SPLITH (json_events (JArray []), yajl_status_ok))
            4 ''[]'' 2
            \<lparr>all_clients = [\<lparr>fd = 3, events = []\<rparr>, \<lparr>fd = 4, events = [''workspace'']\<rparr>], trace = []\<rparr>
          = Inr s' \<and>
          all_clients s' = [\<lparr>fd = 3, events = []\<rparr>, \<lparr>fd = 4, events = [''workspace'']\<rparr>] \<and>
          sent (trace s') = [(4, I3_IPC_REPLY_TYPE_SUBSCRIBE, ''{"success":true}'')])\<close>
  using
    handle_subscribe_any_shape
      [of 4 "\<lparr>all_clients = [\<lparr>fd = 3, events = []\<rparr>, \<lparr>fd = 4, events = [''workspace'']\<rparr>], trace = []\<rparr>" 1
          "example_env L_SPLITH
             (json_events (JArray [JObject [(''events'', JArray [JString ''window''])], JString ''output'']),
              yajl_status_ok)"
          \<open>''[{"events":["window"]},"output"]''\<close>
          "JArray [JObject [(''events'', JArray [JString ''window''])], JString ''output'']" 2]
    handle_subscribe_any_shape
      [of 3 "\<lparr>all_clients = [\<lparr>fd = 3, events = []\<rparr>, \<lparr>fd = 4, events = [''workspace'']\<rparr>], trace = []\<rparr>" 0
          "example_env L_SPLITH (json_events (JString ''workspace''), yajl_status_ok)"
          \<open>''"workspace"''\<close> "JString ''workspace''" 2]
    handle_subscribe_any_shape
      [of 4 "\<lparr>all_clients = [\<lparr>fd = 3, events = []\<rparr>, \<lparr>fd = 4, events = [''workspace'']\<rparr>], trace = []\<rparr>" 1
          "example_env L_SPLITH (json_events (JArray []), yajl_status_ok)"
          "''[]''" "JArray []" 2]
  by (simp add: example_env_def)

section \<open>ipc\_new\_client\<close>

lemma ipc_new_client_clients:
  "ipc_new_client client err setfl s = Inr s' \<Longrightarrow>
   all_clients s' =
     (if 0 \<le> client then all_clients s @ [\<lparr>fd = client, events = []\<rparr>] else all_clients s)"
  by (auto simp: ipc_new_client_def split: if_splits)

lemma ipc_new_client_succeeds:
  "0 \<le> client \<Longrightarrow> 0 \<le> setfl \<Longrightarrow> \<exists>s'. ipc_new_client client err setfl s = Inr s'"
  by (simp add: ipc_new_client_def)

lemma send_event_loop_append:
  "send_event_loop (cs @ ds) event mt payload s =
   send_event_loop ds event mt payload (send_event_loop cs event mt payload s)"
  by (induction cs arbitrary: s) simp_all

text \<open>
  Claim C4. A connection that is accepted is inserted at the tail of the registry and no
  call of \<open>ipc_new_client\<close> changes the registry in any other way; \<open>ipc_send_event\<close> visits
  the clients in registry order: when the clients A, B and C were inserted in this order
  (after the clients \<open>cs\<close>) and all three are subscribed to the event, their frames are
  written in the order A, B, C, after the frames of the subscribed clients among \<open>cs\<close>.
\<close>

theorem registry_insertion_order:
  "(\<forall>s'. ipc_new_client client err setfl s = Inr s' \<longrightarrow>
      all_clients s' =
        (if 0 \<le> client then all_clients s @ [\<lparr>fd = client, events = []\<rparr>] else all_clients s)) \<and>
   (0 \<le> client \<and> 0 \<le> setfl \<longrightarrow> (\<exists>s'. ipc_new_client client err setfl s = Inr s')) \<and>
   (all_clients s = cs @ [A, B, C] \<and> subscribed event A \<and> subscribed event B \<and> subscribed event C \<longrightarrow>
      sent (trace (ipc_send_event event mt payload s)) =
        sent (trace s) @
        map (\<lambda>c. (fd c, Message_type mt, c_str payload)) (filter (subscribed event) cs) @
        [(fd A, Message_type mt, c_str payload),
         (fd B, Message_type mt, c_str payload),
         (fd C, Message_type mt, c_str payload)])"
  by (auto simp: ipc_send_event_def send_event_loop_sent dest: ipc_new_client_clients
      intro: ipc_new_client_succeeds)

theorem registry_insertion_order_witness:
  \<open>(\<exists>s'. ipc_new_client 12 EAGAIN 0
           \<lparr>all_clients = [\<lparr>fd = 10, events = [''workspace'']\<rparr>, \<lparr>fd = 11, events = [''Workspace'']\<rparr>],
            trace = []\<rparr> = Inr s' \<and>
         all_clients s' =
           [\<lparr>fd = 10, events = [''workspace'']\<rparr>, \<lparr>fd = 11, events = [''Workspace'']\<rparr>,
            \<lparr>fd = 12, events = []\<rparr>]) \<and>
   sent (trace (ipc_send_event ''workspace'' 0x80000000 ''{"change":"init"}''
     \<lparr>all_clients =
        [\<lparr>fd = 10, events = [''workspace'']\<rparr>, \<lparr>fd = 11, events = [''Workspace'']\<rparr>,
         \<lparr>fd = 12, events = [''output'', ''WORKSPACE'']\<rparr>],
      trace = []\<rparr>)) =
   [(10, Message_type 0x80000000, ''{"change":"init"}''),
    (11, Message_type 0x80000000, ''{"change":"init"}''),
    (12, Message_type 0x80000000, ''{"change":"init"}'')]\<close>
  using
    registry_insertion_order
      [of 12 EAGAIN 0
          "\<lparr>all_clients = [\<lparr>fd = 10, events = [''workspace'']\<rparr>, \<lparr>fd = 11, events = [''Workspace'']\<rparr>],
            trace = []\<rparr>"
          "[]" "\<lparr>fd = 10, events = [''workspace'']\<rparr>" "\<lparr>fd = 11, events = [''Workspace'']\<rparr>"
          "\<lparr>fd = 12, events = []\<rparr>" "''output''" 0 "''''"]
    registry_insertion_order
      [of 12 EAGAIN 0
          "\<lparr>all_clients =
              [\<lparr>fd = 10, events = [''workspace'']\<rparr>, \<lparr>fd = 11, events = [''Workspace'']\<rparr>,
               \<lparr>fd = 12, events = [''output'', ''WORKSPACE'']\<rparr>],
            trace = []\<rparr>"
          "[]" "\<lparr>fd = 10, events = [''workspace'']\<rparr>" "\<lparr>fd = 11, events = [''Workspace'']\<rparr>"
          "\<lparr>fd = 12, events = [''output'', ''WORKSPACE'']\<rparr>" "''workspace''" "0x80000000"
          \<open>''{"change":"init"}''\<close>]
  by (auto simp: subscribed_def case_insensitive_match_def c_str_def)

section \<open>The teardown of ipc\_receive\_message\<close>

lemma find_client_None: "find_client fd' cs = None \<longleftrightarrow> (\<forall>c\<in>set cs. fd c \<noteq> fd')"
  by (induction cs) auto

lemma delete_client_found:
  "find_client fd' cs = Some i \<Longrightarrow>
   delete_client fd' cs = (without i cs, map Free_string (events (cs ! i)) @ [Free_client fd'])"
proof (induction cs arbitrary: i)
  case Nil
  then show ?case by simp
next
  case (Cons c cs)
  show ?case
  proof (cases "fd c = fd'")
    case True
    with Cons.prems show ?thesis by (simp add: without_def)
  next
    case False
    with Cons.prems obtain k where k: "find_client fd' cs = Some k" "i = Suc k"
      by auto
    from Cons.IH [OF k(1)] False k(2) show ?thesis
      by (simp add: without_def)
  qed
qed

lemma without_distinct_fd:
  "find_client fd' cs = Some i \<Longrightarrow> distinct (map fd cs) \<Longrightarrow>
   without i cs = filter (\<lambda>c. fd c \<noteq> fd') cs"
proof (induction cs arbitrary: i)
  case Nil
  then show ?case by simp
next
  case (Cons c cs)
  show ?case
  proof (cases "fd c = fd'")
    case True
    then have "\<forall>d\<in>set cs. fd d \<noteq> fd'"
      using Cons.prems(2) by (force simp: image_iff)
    then have "filter (\<lambda>c. fd c \<noteq> fd') cs = cs"
      by (simp add: filter_id_conv)
    with True Cons.prems show ?thesis by (simp add: without_def)
  next
    case False
    with Cons.prems obtain k where k: "find_client fd' cs = Some k" "i = Suc k"
      by auto
    from Cons.IH [OF k(1)] Cons.prems(2) False k(2) show ?thesis
      by (simp add: without_def)
  qed
qed

text \<open>
  Claim C5. When the read on a registered connection fails or meets end of file (and it is
  not the would-block case), \<open>ipc_receive_message\<close> frees the subscription strings of that
  client and removes its entry, and only its entry, from the registry: the other entries
  stay as they were, in the same order, and no frame is written. A later \<open>ipc_send_event\<close>,
  for any event name, returns and writes its frames to the subscribed clients that remain.
\<close>

theorem receive_error_removes_client:
  assumes "ret r < 0"
      and "\<not> (ret r = - 1 \<and> errno r = EAGAIN)"
      and "find_client w_fd (all_clients s) = Some i"
  shows "\<exists>s'. ipc_receive_message env w_fd r s = Inr s' \<and>
           i < length (all_clients s) \<and> fd (all_clients s ! i) = w_fd \<and>
           all_clients s' = without i (all_clients s) \<and>
           (distinct (map fd (all_clients s)) \<longrightarrow>
              all_clients s' = filter (\<lambda>c. fd c \<noteq> w_fd) (all_clients s)) \<and>
           freed_strings (trace s') = freed_strings (trace s) @ events (all_clients s ! i) \<and>
           sent (trace s') = sent (trace s) \<and>
           (\<forall>event mt payload.
              sent (trace (ipc_send_event event mt payload s')) =
                sent (trace s') @
                map (\<lambda>c. (fd c, Message_type mt, c_str payload))
                    (filter (subscribed event) (without i (all_clients s))))"
proof -
  let ?s' = "\<lparr>all_clients = without i (all_clients s),
              trace = trace s @ [Close_fd w_fd] @
                (map Free_string (events (all_clients s ! i)) @ [Free_client w_fd]) @
                [Ev_io_stop w_fd, Free_watcher w_fd, Log DLOG ''IPC: client disconnected'']\<rparr>"
  have run: "ipc_receive_message env w_fd r s = Inr ?s'"
    using assms by (auto simp: ipc_receive_message_def delete_client_found)
  have i: "i < length (all_clients s)" "fd (all_clients s ! i) = w_fd"
    using find_client_Some [OF assms(3)] by simp_all
  have freed: "freed_strings (trace ?s') = freed_strings (trace s) @ events (all_clients s ! i)"
    by (simp add: freed_strings_append freed_strings_map_Free_string)
  have snt: "sent (trace ?s') = sent (trace s)"
    by (simp add: sent_append sent_map_Free_string)
  have pub: "sent (trace (ipc_send_event event mt payload ?s')) =
             sent (trace ?s') @
             map (\<lambda>c. (fd c, Message_type mt, c_str payload))
                 (filter (subscribed event) (without i (all_clients s)))" for event mt payload
    unfolding ipc_send_event_def by (simp only: send_event_loop_sent ipc_state.simps)
  have dist: "distinct (map fd (all_clients s)) \<longrightarrow>
              all_clients ?s' = filter (\<lambda>c. fd c \<noteq> w_fd) (all_clients s)"
    using without_distinct_fd [OF assms(3)] by simp
  show ?thesis
    using run i freed snt pub dist by (intro exI [of _ ?s']) simp
qed

theorem receive_error_removes_client_witness:
  "\<exists>s'. ipc_receive_message (example_env L_SPLITH ([], yajl_status_ok)) 4
           \<lparr>ret = - 2, errno = EAGAIN, message_type = 0, message = ''''\<rparr>
           \<lparr>all_clients =
              [\<lparr>fd = 3, events = [''workspace'']\<rparr>, \<lparr>fd = 4, events = [''workspace'', ''output'']\<rparr>,
               \<lparr>fd = 5, events = [''Workspace'']\<rparr>],
            trace = []\<rparr> = Inr s' \<and>
         all_clients s' = [\<lparr>fd = 3, events = [''workspace'']\<rparr>, \<lparr>fd = 5, events = [''Workspace'']\<rparr>] \<and>
         freed_strings (trace s') = [''workspace'', ''output''] \<and>
         sent (trace s') = [] \<and>
         sent (trace (ipc_send_event ''workspace'' 0x80000000 ''{}'' s')) =
           [(3, Message_type 0x80000000, ''{}''), (5, Message_type 0x80000000, ''{}'')]"
  using receive_error_removes_client
    [of "\<lparr>ret = - 2, errno = EAGAIN, message_type = 0, message = ''''\<rparr>" 4
        "\<lparr>all_clients =
              [\<lparr>fd = 3, events = [''workspace'']\<rparr>, \<lparr>fd = 4, events = [''workspace'', ''output'']\<rparr>,
               \<lparr>fd = 5, events = [''Workspace'']\<rparr>],
            trace = []\<rparr>" 1 "example_env L_SPLITH ([], yajl_status_ok)"]
  by (fastforce simp: without_def subscribed_def case_insensitive_match_def c_str_def)


section \<open>The example environment\<close>

lemma example_env_simps:
  "NDEBUG (example_env lay parsed) = False"
  "yajl_parse (example_env lay parsed) = (\<lambda>buf. parsed)"
  "yajl_gen_get_buf (example_env lay parsed) = (\<lambda>gen. concat (map example_tok_text gen))"
  "barconfigs (example_env lay parsed) = [example_bar ''bar-0'', example_bar ''bar-1'']"
  "croot (example_env lay parsed) = Con (example_con 1 CT_ROOT lay ''root'') [] []"
  "focused (example_env lay parsed) = Con (example_con 1 CT_ROOT lay ''root'') [] []"
  "con_is_split (example_env lay parsed) = (\<lambda>c. False)"
  "con_type_value (example_env lay parsed) = (\<lambda>t. 0)"
  "MAJOR_VERSION (example_env lay parsed) = 4"
  "MINOR_VERSION (example_env lay parsed) = 7"
  "PATCH_VERSION (example_env lay parsed) = 0"
  "I3_VERSION (example_env lay parsed) = ''4.7''"
  by (simp_all add: example_env_def)

section \<open>ipc\_shutdown\<close>

lemma ipc_shutdown_drains:
  "all_clients (ipc_shutdown s) = [] \<and>
   sent (trace (ipc_shutdown s)) = sent (trace s) \<and>
   freed_strings (trace (ipc_shutdown s)) = freed_strings (trace s)"
proof (induction s rule: ipc_shutdown.induct)
  case (1 s)
  show ?case
  proof (cases "all_clients s")
    case Nil
    then show ?thesis by (subst (1 2 3) ipc_shutdown.simps) simp
  next
    case (Cons current rest)
    from "1.IH" [OF Cons] Cons show ?thesis
      by (subst (1 2 3) ipc_shutdown.simps) (simp add: sent_append freed_strings_append)
  qed
qed

text \<open>
  Claim C6. Destroying a client frees its subscription strings on every path. The code does
  not do so at shutdown: for a registry holding one client subscribed to \<open>workspace\<close>,
  \<open>ipc_shutdown\<close> closes the connection, unlinks and frees the client struct, sends
  nothing and leaves the registry empty, but never frees the string, while the teardown of
  \<open>ipc_receive_message\<close> on the same registry does free it.
\<close>

theorem ipc_shutdown_leaks_subscription_strings:
  "ipc_shutdown \<lparr>all_clients = [\<lparr>fd = 7, events = [''workspace'']\<rparr>], trace = []\<rparr> =
     \<lparr>all_clients = [], trace = [Shutdown_fd 7, Close_fd 7, Free_client 7]\<rparr> \<and>
   freed_strings
     (trace (ipc_shutdown \<lparr>all_clients = [\<lparr>fd = 7, events = [''workspace'']\<rparr>], trace = []\<rparr>)) = [] \<and>
   ipc_receive_message (example_env L_SPLITH ([], yajl_status_ok)) 7
     \<lparr>ret = - 2, errno = EAGAIN, message_type = 0, message = ''''\<rparr>
     \<lparr>all_clients = [\<lparr>fd = 7, events = [''workspace'']\<rparr>], trace = []\<rparr> =
     Inr \<lparr>all_clients = [],
          trace = [Close_fd 7, Free_string ''workspace'', Free_client 7, Ev_io_stop 7, Free_watcher 7,
                   Log DLOG ''IPC: client disconnected'']\<rparr>"
  by (simp add: ipc_receive_message_def)

section \<open>Dispatch\<close>

lemma length_handlers: "length handlers = 8"
  by (simp add: handlers_def)

text \<open>
  Claim C3. For every message that was read, the type codes 0 to 7 run the handlers of
  COMMAND, GET_WORKSPACES, SUBSCRIBE, GET_OUTPUTS, GET_TREE, GET_MARKS, GET_BAR_CONFIG and
  GET_VERSION, in this order, and a type code of 8 or more, the size of the table, is
  logged and nothing else happens: no handler runs, no reply is written, and the registry
  and the connection are as before.
\<close>

theorem dispatch_by_type_code:
  assumes "0 \<le> ret r"
  shows "length handlers = 8 \<and>
         (message_type r = 0 \<longrightarrow>
            ipc_receive_message env w_fd r s = handle_command env w_fd (message r) (message_type r) s) \<and>
         (message_type r = 1 \<longrightarrow>
            ipc_receive_message env w_fd r s = handle_get_workspaces env w_fd (message r) (message_type r) s) \<and>
         (message_type r = 2 \<longrightarrow>
            ipc_receive_message env w_fd r s = handle_subscribe env w_fd (message r) (message_type r) s) \<and>
         (message_type r = 3 \<longrightarrow>
            ipc_receive_message env w_fd r s = handle_get_outputs env w_fd (message r) (message_type r) s) \<and>
         (message_type r = 4 \<longrightarrow>
            ipc_receive_message env w_fd r s = handle_tree env w_fd (message r) (message_type r) s) \<and>
         (message_type r = 5 \<longrightarrow>
            ipc_receive_message env w_fd r s = handle_get_marks env w_fd (message r) (message_type r) s) \<and>
         (message_type r = 6 \<longrightarrow>
            ipc_receive_message env w_fd r s = handle_get_bar_config env w_fd (message r) (message_type r) s) \<and>
         (message_type r = 7 \<longrightarrow>
            ipc_receive_message env w_fd r s = handle_get_version env w_fd (message r) (message_type r) s) \<and>
         (8 \<le> unat (message_type r) \<longrightarrow>
            ipc_receive_message env w_fd r s =
              Inr \<lparr>all_clients = all_clients s,
                   trace = trace s @ [Log DLOG ''Unhandled message type: %d'']\<rparr>)"
  using assms
  by (simp add: ipc_receive_message_def handlers_def log_event_def)

theorem dispatch_by_type_code_witness:
  \<open>ipc_receive_message (example_env L_SPLITH ([], yajl_status_ok)) 4
     \<lparr>ret = 0, errno = EAGAIN, message_type = 8, message = ''[]''\<rparr>
     \<lparr>all_clients = [\<lparr>fd = 4, events = []\<rparr>], trace = []\<rparr> =
   Inr \<lparr>all_clients = [\<lparr>fd = 4, events = []\<rparr>], trace = [Log DLOG ''Unhandled message type: %d'']\<rparr> \<and>
   ipc_receive_message (example_env L_SPLITH ([Yajl_start_array, Yajl_end_array], yajl_status_ok)) 4
     \<lparr>ret = 0, errno = EAGAIN, message_type = 2, message = ''[]''\<rparr>
     \<lparr>all_clients = [\<lparr>fd = 4, events = []\<rparr>], trace = []\<rparr> =
   Inr \<lparr>all_clients = [\<lparr>fd = 4, events = []\<rparr>],
        trace = [Send_message 4 I3_IPC_REPLY_TYPE_SUBSCRIBE ''{"success":true}'']\<rparr> \<and>
   ipc_receive_message (example_env L_SPLITH ([], yajl_status_ok)) 4
     \<lparr>ret = 0, errno = EAGAIN, message_type = 7, message = ''''\<rparr>
     \<lparr>all_clients = [\<lparr>fd = 4, events = []\<rparr>], trace = []\<rparr> =
   Inr \<lparr>all_clients = [\<lparr>fd = 4, events = []\<rparr>],
        trace = [Send_message 4 I3_IPC_REPLY_TYPE_VERSION
                   ''{ <major> int <minor> int <patch> int <human_readable> <4.7> } '']\<rparr>\<close>
  using
    dispatch_by_type_code
      [of "\<lparr>ret = 0, errno = EAGAIN, message_type = 8, message = ''[]''\<rparr>"
          "example_env L_SPLITH ([], yajl_status_ok)" 4
          "\<lparr>all_clients = [\<lparr>fd = 4, events = []\<rparr>], trace = []\<rparr>"]
    dispatch_by_type_code
      [of "\<lparr>ret = 0, errno = EAGAIN, message_type = 2, message = ''[]''\<rparr>"
          "example_env L_SPLITH ([Yajl_start_array, Yajl_end_array], yajl_status_ok)" 4
          "\<lparr>all_clients = [\<lparr>fd = 4, events = []\<rparr>], trace = []\<rparr>"]
    dispatch_by_type_code
      [of "\<lparr>ret = 0, errno = EAGAIN, message_type = 7, message = ''''\<rparr>"
          "example_env L_SPLITH ([], yajl_status_ok)" 4
          "\<lparr>all_clients = [\<lparr>fd = 4, events = []\<rparr>], trace = []\<rparr>"]
  by (simp add: handle_subscribe_def handle_get_version_def send_gen_buf_def ipc_send_message_def
      example_env_simps c_str_reply_true ystr_eq c_str_def)

section \<open>GET\_BAR\_CONFIG\<close>

lemma find_config_None:
  "find_config bar_id cfgs = None \<longleftrightarrow> (\<forall>c\<in>set cfgs. c_str (config_id c) \<noteq> c_str bar_id)"
  by (induction cfgs) (auto simp: strcmp_eq_0_iff)

text \<open>
  Claim C7. For every GET_BAR_CONFIG request: with an empty payload the reply is the text
  the generator holds after an array was opened, the id of every known bar configuration
  was written as a string, in order, and the array was closed; with a payload that is not
  empty and names no known configuration, the reply is the text the generator holds for
  an object whose only member is the key \<open>id\<close> with the value null.
\<close>

theorem get_bar_config_reply:
  "(msg = [] \<longrightarrow>
      (\<exists>s'. handle_get_bar_config env fd' msg mt s = Inr s' \<and>
         all_clients s' = all_clients s \<and>
         sent (trace s') =
           sent (trace s) @
           [(fd', I3_IPC_REPLY_TYPE_BAR_CONFIG,
             yajl_gen_get_buf env
               ([Y_array_open] @ map (\<lambda>c. Y_string (c_str (config_id c))) (barconfigs env) @
                [Y_array_close]))])) \<and>
   (msg \<noteq> [] \<and> (\<forall>c\<in>set (barconfigs env). c_str (config_id c) \<noteq> c_str msg) \<longrightarrow>
      (\<exists>s'. handle_get_bar_config env fd' msg mt s = Inr s' \<and>
         all_clients s' = all_clients s \<and>
         sent (trace s') =
           sent (trace s) @
           [(fd', I3_IPC_REPLY_TYPE_BAR_CONFIG,
             yajl_gen_get_buf env [Y_map_open, Y_string ''id'', Y_null, Y_map_close])]))"
proof -
  have "find_config (strncpy_buf msg (length msg)) (barconfigs env) = None"
    if "\<forall>c\<in>set (barconfigs env). c_str (config_id c) \<noteq> c_str msg"
    using that by (simp add: find_config_None strncpy_buf_all c_str_idem)
  then show ?thesis
    by (auto simp: handle_get_bar_config_def send_gen_buf_def ipc_send_message_def log_event_def
        sent_append ystr_eq c_str_def Let_def)
qed

theorem get_bar_config_reply_witness:
  "(\<exists>s'. handle_get_bar_config (example_env L_SPLITH ([], yajl_status_ok)) 4 '''' 6
           \<lparr>all_clients = [\<lparr>fd = 4, events = []\<rparr>], trace = []\<rparr> = Inr s' \<and>
         sent (trace s') = [(4, I3_IPC_REPLY_TYPE_BAR_CONFIG, ''[ <bar-0> <bar-1> ] '')]) \<and>
   (\<exists>s'. handle_get_bar_config (example_env L_SPLITH ([], yajl_status_ok)) 4 ''bar-7'' 6
           \<lparr>all_clients = [\<lparr>fd = 4, events = []\<rparr>], trace = []\<rparr> = Inr s' \<and>
         sent (trace s') = [(4, I3_IPC_REPLY_TYPE_BAR_CONFIG, ''{ <id> null } '')])"
  using
    get_bar_config_reply
      [of "''''" "example_env L_SPLITH ([], yajl_status_ok)" 4 6
          "\<lparr>all_clients = [\<lparr>fd = 4, events = []\<rparr>], trace = []\<rparr>"]
    get_bar_config_reply
      [of "''bar-7''" "example_env L_SPLITH ([], yajl_status_ok)" 4 6
          "\<lparr>all_clients = [\<lparr>fd = 4, events = []\<rparr>], trace = []\<rparr>"]
  by (fastforce simp: example_env_simps example_bar_def c_str_def)


section \<open>GET\_TREE: the layout field\<close>

lemma collect_isl: "isl (snd (collect rs)) \<longleftrightarrow> (\<exists>r\<in>set rs. isl (snd r))"
  by (induction rs rule: collect.induct) (auto split: prod.splits sum.splits)

lemma collect_layout_section:
  "collect ((l1, Inr a1) # (l2, Inr a2) # (l3, Inr a3) # (l4, Inr a4) # r5 # (l6, Inr a6) # rs) =
     (logs, Inr toks) \<Longrightarrow>
   \<exists>t5 rest. snd r5 = Inr t5 \<and> toks = a1 @ a2 @ a3 @ a4 @ t5 @ a6 @ rest"
  by (cases r5; cases "snd r5") (auto split: prod.splits sum.splits)

lemma collect_layout_logs:
  "\<exists>rest. fst (collect (([], Inr a1) # ([], Inr a2) # ([], Inr a3) # ([], Inr a4) # (l # ls, r5) # rs)) =
     l # rest"
  by (cases r5) (auto split: prod.splits sum.splits)

lemma collect_layout_fails:
  "collect (([], Inr a1) # ([], Inr a2) # ([], Inr a3) # ([], Inr a4) # (ls, Inl e) # rs) = (ls, Inl e)"
  by simp

lemma dump_layout_default:
  "dump_layout ndebug L_DEFAULT =
     ([Log DLOG ''About to dump layout=default, this is a bug in the code.''],
      if ndebug then Inr [] else Inl Assertion_failed)"
  by (simp add: c_assert_def dlog_def)

lemma dump_layout_token: "layout_token l = Some t \<Longrightarrow> dump_layout ndebug l = ([], Inr [Y_string t])"
  by (cases l) (auto simp: ystr_eq c_str_def emit_def)

lemma layout_token_None: "layout_token l = None \<longleftrightarrow> l = L_DEFAULT"
  by (cases l) simp_all

lemma dump_layout_value:
  "snd (dump_layout ndebug l) = Inr t5 \<Longrightarrow>
   t5 = (case layout_token l of None \<Rightarrow> [] | Some t \<Rightarrow> [Y_string t])"
  by (cases l) (auto simp: c_assert_def dlog_def ystr_eq c_str_def emit_def split: if_splits)

lemma dump_layout_isl: "isl (snd (dump_layout ndebug l)) \<longleftrightarrow> \<not> ndebug \<and> l = L_DEFAULT"
  by (cases l) (simp_all add: c_assert_def dlog_def emit_def)

lemma dump_workspace_layout_isl:
  "isl (snd (dump_workspace_layout ndebug l)) \<longleftrightarrow> \<not> ndebug \<and> l \<notin> {L_DEFAULT, L_STACKED, L_TABBED}"
  by (cases l) (simp_all add: c_assert_def dlog_def emit_def)

lemma dump_node_default_layout:
  assumes "con_layout con = L_DEFAULT" and "\<not> NDEBUG env"
  shows "dump_node env (Con con nodes floating) inplace_restart =
           ([Log DLOG ''About to dump layout=default, this is a bug in the code.''], Inl Assertion_failed)"
  using assms
  by (simp only: dump_node.simps dump_layout_default emit_def collect_layout_fails simp_thms if_False)

lemma dump_node_default_logs:
  assumes "con_layout con = L_DEFAULT"
  shows "\<exists>rest. fst (dump_node env (Con con nodes floating) inplace_restart) =
           Log DLOG ''About to dump layout=default, this is a bug in the code.'' # rest"
  using assms
  by (simp only: dump_node.simps dump_layout_default emit_def collect_layout_logs)


lemma isl_emit: "isl (snd (emit toks)) \<longleftrightarrow> False"
  by (simp add: emit_def)

lemma collect_isl_Cons: "isl (snd (collect (r # rs))) \<longleftrightarrow> isl (snd r) \<or> isl (snd (collect rs))"
  by (simp add: collect_isl)

lemma collect_isl_Nil: "isl (snd (collect [])) \<longleftrightarrow> False"
  by simp

lemma collect_isl_map:
  "isl (snd (collect (map f xs))) \<longleftrightarrow> (\<exists>x\<in>set xs. isl (snd (f x)))"
  by (simp add: collect_isl)

lemma dump_node_isl_unfold:
  "isl (snd (dump_node env (Con con nodes floating) inplace_restart)) \<longleftrightarrow>
     isl (snd (dump_layout (NDEBUG env) (con_layout con))) \<or>
     isl (snd (dump_workspace_layout (NDEBUG env) (con_workspace_layout con))) \<or>
     ((con_type con \<noteq> CT_DOCKAREA \<or> \<not> inplace_restart) \<and>
      (\<exists>node\<in>set nodes. isl (snd (dump_node env node inplace_restart)))) \<or>
     (\<exists>node\<in>set floating. isl (snd (dump_node env node inplace_restart)))"
  by (simp only: dump_node.simps collect_isl_Cons collect_isl_Nil collect_isl_map isl_emit
      simp_thms if_distrib [of "\<lambda>r. isl (snd r)"] if_bool_eq_conj)
    blast

lemma dump_node_isl:
  "isl (snd (dump_node env c inplace_restart)) \<longleftrightarrow> \<not> (NDEBUG env \<or> serializable inplace_restart c)"
proof (induction env c inplace_restart rule: dump_node.induct)
  case (1 env con nodes floating inplace_restart)
  have nodes: "isl (snd (dump_node env node inplace_restart)) \<longleftrightarrow>
               \<not> (NDEBUG env \<or> serializable inplace_restart node)"
    if "con_type con \<noteq> CT_DOCKAREA \<or> \<not> inplace_restart" "node \<in> set nodes" for node
    using "1.IH"(1) that by blast
  have floating: "isl (snd (dump_node env node inplace_restart)) \<longleftrightarrow>
                  \<not> (NDEBUG env \<or> serializable inplace_restart node)"
    if "node \<in> set floating" for node
    using "1.IH"(2) that by blast
  have n: "(con_type con \<noteq> CT_DOCKAREA \<or> \<not> inplace_restart) \<and>
           (\<exists>node\<in>set nodes. isl (snd (dump_node env node inplace_restart))) \<longleftrightarrow>
           (con_type con \<noteq> CT_DOCKAREA \<or> \<not> inplace_restart) \<and>
           (\<exists>node\<in>set nodes. \<not> (NDEBUG env \<or> serializable inplace_restart node))"
    using nodes by blast
  have f: "(\<exists>node\<in>set floating. isl (snd (dump_node env node inplace_restart))) \<longleftrightarrow>
           (\<exists>node\<in>set floating. \<not> (NDEBUG env \<or> serializable inplace_restart node))"
    using floating by blast
  show ?case
    unfolding dump_node_isl_unfold n f dump_layout_isl dump_workspace_layout_isl serializable.simps
    by blast
qed

lemma not_isl_snd: "\<not> isl (snd x) \<longleftrightarrow> (\<exists>logs toks. x = (logs, Inr toks))"
  by (cases x; cases "snd x") auto

lemma dump_node_succeeds_iff:
  "(\<exists>logs toks. dump_node env c inplace_restart = (logs, Inr toks)) \<longleftrightarrow>
   NDEBUG env \<or> serializable inplace_restart c"
  using dump_node_isl [of env c inplace_restart] not_isl_snd [of "dump_node env c inplace_restart"]
  by blast

lemma ystr_literals:
  "ystr ''id'' = Y_string ''id''"
  "ystr ''type'' = Y_string ''type''"
  "ystr ''orientation'' = Y_string ''orientation''"
  "ystr ''none'' = Y_string ''none''"
  "ystr ''horizontal'' = Y_string ''horizontal''"
  "ystr ''vertical'' = Y_string ''vertical''"
  "ystr ''scratchpad_state'' = Y_string ''scratchpad_state''"
  "ystr ''fresh'' = Y_string ''fresh''"
  "ystr ''changed'' = Y_string ''changed''"
  "ystr ''percent'' = Y_string ''percent''"
  "ystr ''urgent'' = Y_string ''urgent''"
  "ystr ''mark'' = Y_string ''mark''"
  "ystr ''focused'' = Y_string ''focused''"
  "ystr ''layout'' = Y_string ''layout''"
  "ystr ''workspace_layout'' = Y_string ''workspace_layout''"
  by (simp_all add: ystr_eq c_str_def)

lemma dump_node_layout_position:
  assumes "dump_node env (Con con nodes floating) inplace_restart = (logs, Inr toks)"
  shows "\<exists>post. toks =
     [Y_map_open,
      Y_string ''id'', Y_integer (con_addr con),
      Y_string ''type'', Y_integer (con_type_value env (con_type con)),
      Y_string ''orientation'',
      Y_string (if \<not> con_is_split env (Con con nodes floating) then ''none''
                else if con_orientation env (Con con nodes floating) = HORIZ then ''horizontal''
                else ''vertical''),
      Y_string ''scratchpad_state'',
      Y_string (case con_scratchpad_state con of
                  SCRATCHPAD_NONE \<Rightarrow> ''none''
                | SCRATCHPAD_FRESH \<Rightarrow> ''fresh''
                | SCRATCHPAD_CHANGED \<Rightarrow> ''changed''),
      Y_string ''percent'',
      (if con_percent con = 0 then Y_null else Y_double (con_percent con)),
      Y_string ''urgent'', Y_bool (con_urgent con)] @
     (case con_mark con of None \<Rightarrow> [] | Some mark \<Rightarrow> [Y_string ''mark'', Y_string (c_str mark)]) @
     [Y_string ''focused'', Y_bool (con_addr con = con_addr (con_of (focused env))),
      Y_string ''layout''] @
     (case layout_token (con_layout con) of None \<Rightarrow> [] | Some t \<Rightarrow> [Y_string t]) @
     [Y_string ''workspace_layout''] @ post"
proof -
  from assms [unfolded dump_node.simps emit_def, THEN collect_layout_section]
  obtain t5 rest where
    t5: "snd (dump_layout (NDEBUG env) (con_layout con)) = Inr t5" and
    toks: "toks =
       [Y_map_open,
        ystr ''id'', Y_integer (con_addr con),
        ystr ''type'', Y_integer (con_type_value env (con_type con)),
        ystr ''orientation'',
        (if \<not> con_is_split env (Con con nodes floating) then ystr ''none''
         else if con_orientation env (Con con nodes floating) = HORIZ then ystr ''horizontal''
         else ystr ''vertical''),
        ystr ''scratchpad_state'',
        (case con_scratchpad_state con of
           SCRATCHPAD_NONE \<Rightarrow> ystr ''none''
         | SCRATCHPAD_FRESH \<Rightarrow> ystr ''fresh''
         | SCRATCHPAD_CHANGED \<Rightarrow> ystr ''changed''),
        ystr ''percent'',
        (if con_percent con = 0 then Y_null else Y_double (con_percent con)),
        ystr ''urgent'', Y_bool (con_urgent con)] @
       (case con_mark con of None \<Rightarrow> [] | Some mark \<Rightarrow> [ystr ''mark'', ystr mark]) @
       [ystr ''focused'', Y_bool (con_addr con = con_addr (con_of (focused env)))] @
       [ystr ''layout''] @ t5 @ [ystr ''workspace_layout''] @ rest"
    by blast
  have orient:
    "(if \<not> con_is_split env (Con con nodes floating) then Y_string ''none''
      else if con_orientation env (Con con nodes floating) = HORIZ then Y_string ''horizontal''
      else Y_string ''vertical'') =
     Y_string (if \<not> con_is_split env (Con con nodes floating) then ''none''
               else if con_orientation env (Con con nodes floating) = HORIZ then ''horizontal''
               else ''vertical'')"
    by simp
  have scratch:
    "(case con_scratchpad_state con of
        SCRATCHPAD_NONE \<Rightarrow> Y_string ''none''
      | SCRATCHPAD_FRESH \<Rightarrow> Y_string ''fresh''
      | SCRATCHPAD_CHANGED \<Rightarrow> Y_string ''changed'') =
     Y_string (case con_scratchpad_state con of
                 SCRATCHPAD_NONE \<Rightarrow> ''none''
               | SCRATCHPAD_FRESH \<Rightarrow> ''fresh''
               | SCRATCHPAD_CHANGED \<Rightarrow> ''changed'')"
    by (cases "con_scratchpad_state con") simp_all
  have mark:
    "(case con_mark con of None \<Rightarrow> [] | Some mark \<Rightarrow> [Y_string ''mark'', ystr mark]) =
     (case con_mark con of None \<Rightarrow> [] | Some mark \<Rightarrow> [Y_string ''mark'', Y_string (c_str mark)])"
    by (cases "con_mark con") (simp_all add: ystr_eq)
  show ?thesis
    unfolding toks dump_layout_value [OF t5] ystr_literals orient scratch mark
    by simp
qed

text \<open>
  Claim C8. In the serialization of a node by \<open>dump_node\<close>, each recognized layout value
  is written as its fixed token (splitv, splith, stacked, tabbed, dockarea, output), right
  after the key \<open>layout\<close>, whose place in the output is fixed by the fields written
  before it; the default layout value is written as no token at all, in no build: the key
  \<open>layout\<close> is then followed at once by the key \<open>workspace_layout\<close>, and a log line
  reports the bug. In a build with assertions (\<open>NDEBUG\<close> not defined) serializing a node
  whose layout is the default value fails an assertion; the serialization of a tree succeeds
  exactly when assertions are off or no visited node offends one.
\<close>

theorem dump_node_layout_field:
  "(layout_token l = None \<longleftrightarrow> l = L_DEFAULT) \<and>
   (layout_token l = Some t \<longrightarrow> dump_layout ndebug l = ([], Inr [Y_string t])) \<and>
   dump_layout ndebug L_DEFAULT =
     ([Log DLOG ''About to dump layout=default, this is a bug in the code.''],
      if ndebug then Inr [] else Inl Assertion_failed) \<and>
   (con_layout con = L_DEFAULT \<and> \<not> NDEBUG env \<longrightarrow>
      dump_node env (Con con nodes floating) inplace_restart =
        ([Log DLOG ''About to dump layout=default, this is a bug in the code.''], Inl Assertion_failed)) \<and>
   (con_layout con = L_DEFAULT \<longrightarrow>
      (\<exists>rest. fst (dump_node env (Con con nodes floating) inplace_restart) =
         Log DLOG ''About to dump layout=default, this is a bug in the code.'' # rest)) \<and>
   ((\<exists>logs toks. dump_node env (Con con nodes floating) inplace_restart = (logs, Inr toks)) \<longleftrightarrow>
      NDEBUG env \<or> serializable inplace_restart (Con con nodes floating)) \<and>
   (\<forall>logs toks.
      dump_node env (Con con nodes floating) inplace_restart = (logs, Inr toks) \<longrightarrow>
      (\<exists>post. toks =
         [Y_map_open,
          Y_string ''id'', Y_integer (con_addr con),
          Y_string ''type'', Y_integer (con_type_value env (con_type con)),
          Y_string ''orientation'',
          Y_string (if \<not> con_is_split env (Con con nodes floating) then ''none''
                    else if con_orientation env (Con con nodes floating) = HORIZ then ''horizontal''
                    else ''vertical''),
          Y_string ''scratchpad_state'',
          Y_string (case con_scratchpad_state con of
                      SCRATCHPAD_NONE \<Rightarrow> ''none''
                    | SCRATCHPAD_FRESH \<Rightarrow> ''fresh''
                    | SCRATCHPAD_CHANGED \<Rightarrow> ''changed''),
          Y_string ''percent'',
          (if con_percent con = 0 then Y_null else Y_double (con_percent con)),
          Y_string ''urgent'', Y_bool (con_urgent con)] @
         (case con_mark con of None \<Rightarrow> [] | Some mark \<Rightarrow> [Y_string ''mark'', Y_string (c_str mark)]) @
         [Y_string ''focused'', Y_bool (con_addr con = con_addr (con_of (focused env))),
          Y_string ''layout''] @
         (case layout_token (con_layout con) of None \<Rightarrow> [] | Some t \<Rightarrow> [Y_string t]) @
         [Y_string ''workspace_layout''] @ post))"
  using layout_token_None [of l] dump_layout_token [of l t ndebug] dump_layout_default [of ndebug]
    dump_node_default_layout [of con env nodes floating inplace_restart]
    dump_node_default_logs [of con env nodes floating inplace_restart]
    dump_node_succeeds_iff [of env "Con con nodes floating" inplace_restart]
    dump_node_layout_position [of env con nodes floating inplace_restart]
  by (intro conjI allI impI) blast+

theorem dump_node_layout_field_witness:
  "dump_node (example_env L_DEFAULT ([], yajl_status_ok))
     (Con (example_con 1 CT_ROOT L_DEFAULT ''root'') [] []) False =
     ([Log DLOG ''About to dump layout=default, this is a bug in the code.''], Inl Assertion_failed) \<and>
   (\<exists>logs post.
      dump_node (example_env L_STACKED ([], yajl_status_ok))
        (Con (example_con 1 CT_ROOT L_STACKED ''root'') [] []) False =
      (logs,
       Inr ([Y_map_open, Y_string ''id'', Y_integer 1, Y_string ''type'', Y_integer 0,
             Y_string ''orientation'', Y_string ''none'',
             Y_string ''scratchpad_state'', Y_string ''none'',
             Y_string ''percent'', Y_null, Y_string ''urgent'', Y_bool False,
             Y_string ''focused'', Y_bool True,
             Y_string ''layout'', Y_string ''stacked'', Y_string ''workspace_layout''] @ post))) \<and>
   (\<exists>rest post.
      dump_node ((example_env L_DEFAULT ([], yajl_status_ok))\<lparr>NDEBUG := True\<rparr>)
        (Con (example_con 1 CT_ROOT L_DEFAULT ''root'') [] []) False =
      (Log DLOG ''About to dump layout=default, this is a bug in the code.'' # rest,
       Inr ([Y_map_open, Y_string ''id'', Y_integer 1, Y_string ''type'', Y_integer 0,
             Y_string ''orientation'', Y_string ''none'',
             Y_string ''scratchpad_state'', Y_string ''none'',
             Y_string ''percent'', Y_null, Y_string ''urgent'', Y_bool False,
             Y_string ''focused'', Y_bool True,
             Y_string ''layout'', Y_string ''workspace_layout''] @ post)))"
proof -
  let ?p = "([], yajl_status_ok) :: yajl_event list \<times> yajl_status"
  let ?D = "Con (example_con 1 CT_ROOT L_DEFAULT ''root'') [] []"
  let ?S = "Con (example_con 1 CT_ROOT L_STACKED ''root'') [] []"
  let ?dev = "example_env L_DEFAULT ?p"
  let ?rel = "(example_env L_DEFAULT ?p)\<lparr>NDEBUG := True\<rparr>"
  let ?stk = "example_env L_STACKED ?p"
  note dev = dump_node_layout_field
    [of L_DEFAULT "''stacked''" False "example_con 1 CT_ROOT L_DEFAULT ''root''" ?dev "[]" "[]" False]
  note stk = dump_node_layout_field
    [of L_STACKED "''stacked''" False "example_con 1 CT_ROOT L_STACKED ''root''" ?stk "[]" "[]" False]
  note rel = dump_node_layout_field
    [of L_DEFAULT "''stacked''" True "example_con 1 CT_ROOT L_DEFAULT ''root''" ?rel "[]" "[]" False]
  have a: "dump_node ?dev ?D False =
             ([Log DLOG ''About to dump layout=default, this is a bug in the code.''], Inl Assertion_failed)"
    using dev by (simp add: example_env_simps example_con_def del: dump_node.simps)
  have "\<exists>logs toks. dump_node ?stk ?S False = (logs, Inr toks)"
    using stk by (simp add: example_env_simps example_con_def del: dump_node.simps)
  then obtain logs toks where s1: "dump_node ?stk ?S False = (logs, Inr toks)"
    by blast
  have "\<forall>logs toks. dump_node ?stk ?S False = (logs, Inr toks) \<longrightarrow>
          (\<exists>post. toks =
             [Y_map_open, Y_string ''id'', Y_integer 1, Y_string ''type'', Y_integer 0,
              Y_string ''orientation'', Y_string ''none'',
              Y_string ''scratchpad_state'', Y_string ''none'',
              Y_string ''percent'', Y_null, Y_string ''urgent'', Y_bool False,
              Y_string ''focused'', Y_bool True,
              Y_string ''layout'', Y_string ''stacked'', Y_string ''workspace_layout''] @ post)"
    using stk by (simp add: example_env_simps example_con_def del: dump_node.simps)
  with s1 have b: "\<exists>logs post. dump_node ?stk ?S False =
      (logs,
       Inr ([Y_map_open, Y_string ''id'', Y_integer 1, Y_string ''type'', Y_integer 0,
             Y_string ''orientation'', Y_string ''none'',
             Y_string ''scratchpad_state'', Y_string ''none'',
             Y_string ''percent'', Y_null, Y_string ''urgent'', Y_bool False,
             Y_string ''focused'', Y_bool True,
             Y_string ''layout'', Y_string ''stacked'', Y_string ''workspace_layout''] @ post))"
    by blast
  have "\<exists>logs toks. dump_node ?rel ?D False = (logs, Inr toks)"
    using rel by (simp add: example_env_simps example_con_def del: dump_node.simps)
  then obtain logs' toks' where r1: "dump_node ?rel ?D False = (logs', Inr toks')"
    by blast
  have "\<exists>rest. fst (dump_node ?rel ?D False) =
          Log DLOG ''About to dump layout=default, this is a bug in the code.'' # rest"
    using rel by (simp add: example_env_simps example_con_def del: dump_node.simps)
  with r1 obtain rest where r2:
    "logs' = Log DLOG ''About to dump layout=default, this is a bug in the code.'' # rest"
    by auto
  have "\<forall>logs toks. dump_node ?rel ?D False = (logs, Inr toks) \<longrightarrow>
          (\<exists>post. toks =
             [Y_map_open, Y_string ''id'', Y_integer 1, Y_string ''type'', Y_integer 0,
              Y_string ''orientation'', Y_string ''none'',
              Y_string ''scratchpad_state'', Y_string ''none'',
              Y_string ''percent'', Y_null, Y_string ''urgent'', Y_bool False,
              Y_string ''focused'', Y_bool True,
              Y_string ''layout'', Y_string ''workspace_layout''] @ post)"
    using rel by (simp add: example_env_simps example_con_def del: dump_node.simps)
  with r1 r2 have c: "\<exists>rest post. dump_node ?rel ?D False =
      (Log DLOG ''About to dump layout=default, this is a bug in the code.'' # rest,
       Inr ([Y_map_open, Y_string ''id'', Y_integer 1, Y_string ''type'', Y_integer 0,
             Y_string ''orientation'', Y_string ''none'',
             Y_string ''scratchpad_state'', Y_string ''none'',
             Y_string ''percent'', Y_null, Y_string ''urgent'', Y_bool False,
             Y_string ''focused'', Y_bool True,
             Y_string ''layout'', Y_string ''workspace_layout''] @ post))"
    by blast
  from a b c show ?thesis by blast
qed

lemma example_dump_node:
  "dump_node (example_env L_STACKED parsed) (Con (example_con 1 CT_ROOT L_STACKED ''root'') [] []) False =
   ([], Inr example_tree_tokens)"
  by (simp add: example_env_simps example_con_def example_rect_def dump_rect_def ystr_eq c_str_def
      emit_def example_tree_tokens_def)

lemma handle_tree_trace:
  "dump_node env (croot env) False = (logs, Inr toks) \<Longrightarrow>
   handle_tree env fd' msg mt s =
     Inr (s\<lparr>trace := trace s @ logs @
            [Send_message fd' I3_IPC_REPLY_TYPE_TREE (yajl_gen_get_buf env toks)]\<rparr>)"
  by (simp add: handle_tree_def send_gen_buf_def ipc_send_message_def)

end
